theory Spec2Isabelle
  imports Complex_Main "HOL-Library.Log_Nat"
begin

section \<open>JavaScript numbers\<close>

text \<open>
  A JavaScript number is an IEEE 754 double. The model keeps the finite doubles as the
  rationals they denote and adds \<open>NaN\<close>. Every arithmetic result is rounded to the nearest
  double, ties to even (\<open>fl\<close>). The exponent range is left unbounded: overflow to
  Infinity and gradual underflow are outside the model (file sizes and image dimensions
  are integers far below \<open>2^1023\<close>).
\<close>

datatype jsnum = Num rat | NaN

definition round_half_even :: "rat \<Rightarrow> int" where
  "round_half_even x =
     (let f = \<lfloor>x\<rfloor>; d = x - of_int f
      in if d < 1 / 2 then f else if 1 / 2 < d then f + 1 else if even f then f else f + 1)"

text \<open>\<open>ilog2 x\<close> is the binary exponent of a positive rational: \<open>2^e \<le> x < 2^(e+1)\<close>.\<close>

definition ilog2 :: "rat \<Rightarrow> int" where
  "ilog2 x =
     (let (a, b) = quotient_of x; d = bitlen a - bitlen b
      in if 2 powi d \<le> x then d else d - 1)"

text \<open>Rounding to 53 significant bits.\<close>

definition fl :: "rat \<Rightarrow> rat" where
  "fl x =
     (if x = 0 then 0
      else let p = 52 - ilog2 \<bar>x\<bar>;
               m = round_half_even (\<bar>x\<bar> * 2 powi p)
           in sgn x * (of_int m * 2 powi (- p)))"

text \<open>\<open>a * b\<close>\<close>

fun js_mul :: "jsnum \<Rightarrow> jsnum \<Rightarrow> jsnum" where
  "js_mul (Num a) (Num b) = Num (fl (a * b))"
| "js_mul _ _ = NaN"

text \<open>
  \<open>a / b\<close>. JavaScript gives \<open>NaN\<close> for \<open>0 / 0\<close> and an infinity for any other division
  by zero; the model has no infinities and answers \<open>NaN\<close> there. \<open>processImage\<close> never
  divides by zero (its divisor is \<open>metadata.width || 1920\<close>).
\<close>

fun js_div :: "jsnum \<Rightarrow> jsnum \<Rightarrow> jsnum" where
  "js_div (Num a) (Num b) = (if b = 0 then NaN else Num (fl (a / b)))"
| "js_div _ _ = NaN"

text \<open>\<open>a > b\<close>: false as soon as one side is \<open>NaN\<close>.\<close>

fun js_gt :: "jsnum \<Rightarrow> jsnum \<Rightarrow> bool" where
  "js_gt (Num a) (Num b) = (b < a)"
| "js_gt _ _ = False"

text \<open>\<open>Math.min(a, b)\<close>\<close>

fun Math_min :: "jsnum \<Rightarrow> jsnum \<Rightarrow> jsnum" where
  "Math_min (Num a) (Num b) = Num (min a b)"
| "Math_min _ _ = NaN"

text \<open>\<open>Math.round(x)\<close>: the integer nearest to \<open>x\<close>, a tie going towards \<open>+\<infinity>\<close>.\<close>

fun Math_round :: "jsnum \<Rightarrow> jsnum" where
  "Math_round (Num x) = Num (of_int \<lfloor>x + 1 / 2\<rfloor>)"
| "Math_round NaN = NaN"

subsection \<open>\<open>parseInt(s, 10)\<close>\<close>

text \<open>
  A string is the list of the bytes of its UTF-8 encoding. \<open>parseInt\<close> first removes the
  leading white space (\<open>TrimString\<close> at the start): the code points of \<open>WhiteSpace\<close> and
  \<open>LineTerminator\<close>, which are \<open>U+0009\<close> to \<open>U+000D\<close> and \<open>U+0020\<close> (one byte),
  \<open>U+00A0\<close> (two bytes) and \<open>U+1680\<close>, \<open>U+2000\<close> to \<open>U+200A\<close>, \<open>U+2028\<close>,
  \<open>U+2029\<close>, \<open>U+202F\<close>, \<open>U+205F\<close>, \<open>U+3000\<close> and \<open>U+FEFF\<close> (three bytes). Then
  one sign is read, then the longest run of decimal digits; no digit at all gives
  \<open>NaN\<close>. Whatever follows the digits is ignored. The value is the double nearest to
  the integer denoted.
\<close>

definition white_space1 :: "char \<Rightarrow> bool" where
  "white_space1 a \<longleftrightarrow> (of_char a :: nat) \<in> {9, 10, 11, 12, 13, 32}"

definition white_space2 :: "char \<Rightarrow> char \<Rightarrow> bool" where
  "white_space2 a b \<longleftrightarrow> (of_char a :: nat) = 194 \<and> (of_char b :: nat) = 160"

definition white_space3 :: "char \<Rightarrow> char \<Rightarrow> char \<Rightarrow> bool" where
  "white_space3 a b c \<longleftrightarrow>
     (let x = (of_char a :: nat); y = (of_char b :: nat); z = (of_char c :: nat)
      in (x = 225 \<and> y = 154 \<and> z = 128)
       \<or> (x = 226 \<and> y = 128 \<and> ((128 \<le> z \<and> z \<le> 138) \<or> z = 168 \<or> z = 169 \<or> z = 175))
       \<or> (x = 226 \<and> y = 129 \<and> z = 159)
       \<or> (x = 227 \<and> y = 128 \<and> z = 128)
       \<or> (x = 239 \<and> y = 187 \<and> z = 191))"

fun TrimStart :: "string \<Rightarrow> string" where
  "TrimStart (a # b # c # r) =
     (if white_space1 a then TrimStart (b # c # r)
      else if white_space2 a b then TrimStart (c # r)
      else if white_space3 a b c then TrimStart r
      else a # b # c # r)"
| "TrimStart [a, b] =
     (if white_space1 a then TrimStart [b]
      else if white_space2 a b then []
      else [a, b])"
| "TrimStart [a] = (if white_space1 a then [] else [a])"
| "TrimStart [] = []"

definition is_digit :: "char \<Rightarrow> bool" where
  "is_digit c \<longleftrightarrow> 48 \<le> (of_char c :: nat) \<and> (of_char c :: nat) \<le> 57"

definition digit_of :: "char \<Rightarrow> nat" where
  "digit_of c = of_char c - 48"

definition parseInt10 :: "string \<Rightarrow> jsnum" where
  "parseInt10 s =
     (let t = TrimStart s;
          neg = (case t of [] \<Rightarrow> False | c # _ \<Rightarrow> c = CHR ''-'');
          u = (case t of [] \<Rightarrow> [] | c # r \<Rightarrow> if c = CHR ''-'' \<or> c = CHR ''+'' then r else t);
          ds = takeWhile is_digit u;
          n = int (foldl (\<lambda>a c. 10 * a + digit_of c) 0 ds)
      in if ds = [] then NaN else Num (fl (of_int (if neg then - n else n))))"

section \<open>Configuration\<close>

text \<open>\<open>process.env\<close>: a variable is unset, or holds a string.\<close>

type_synonym process_env = "string \<rightharpoonup> string"

text \<open>\<open>process.env.NAME || dflt\<close>: an unset or empty variable gives the default.\<close>

definition env_or :: "process_env \<Rightarrow> string \<Rightarrow> string \<Rightarrow> string" where
  "env_or penv name dflt = (case penv name of None \<Rightarrow> dflt | Some v \<Rightarrow> if v = [] then dflt else v)"

definition PREVIEW_WIDTH :: "process_env \<Rightarrow> jsnum" where
  "PREVIEW_WIDTH penv = parseInt10 (env_or penv ''PREVIEW_WIDTH'' ''300'')"

definition PREVIEW_QUALITY :: "process_env \<Rightarrow> jsnum" where
  "PREVIEW_QUALITY penv = parseInt10 (env_or penv ''PREVIEW_QUALITY'' ''40'')"

definition FULL_WIDTH :: "process_env \<Rightarrow> jsnum" where
  "FULL_WIDTH penv = parseInt10 (env_or penv ''FULL_WIDTH'' ''2000'')"

definition FULL_QUALITY :: "process_env \<Rightarrow> jsnum" where
  "FULL_QUALITY penv = parseInt10 (env_or penv ''FULL_QUALITY'' ''75'')"

section \<open>Image validation (lib/validation, in src/lib/db.ts)\<close>

type_synonym buffer = "nat list"

text \<open>A \<open>File\<close>: its name, its declared MIME type and its bytes; \<open>size\<close> is the byte count.\<close>

record File =
  name :: string
  ftype :: string
  content :: buffer

definition size_of :: "File \<Rightarrow> jsnum" where
  "size_of file = Num (of_nat (length (content file)))"

definition ALLOWED_MIME_TYPES :: "string list" where
  "ALLOWED_MIME_TYPES =
     [''image/jpeg'', ''image/png'', ''image/webp'', ''image/gif'', ''image/heic'', ''image/heif'']"

definition MAX_FILE_SIZE :: "process_env \<Rightarrow> jsnum" where
  "MAX_FILE_SIZE penv =
     js_mul (js_mul (parseInt10 (env_or penv ''MAX_FILE_SIZE_MB'' ''10'')) (Num 1024)) (Num 1024)"

text \<open>
  The two messages of \<open>validateImageFile\<close> are kept as values: \<open>InvalidFileType\<close> stands
  for \<open>Invalid file type. Allowed types: ...\<close> and \<open>FileSizeExceeds m\<close> for
  \<open>File size exceeds ${m}MB limit\<close>; \<open>RateLimitError ms\<close> stands for
  \<open>formatRateLimitError(ms)\<close>. Every other message is the literal text.
\<close>

datatype message =
    Text string
  | InvalidFileType
  | FileSizeExceeds jsnum
  | RateLimitError jsnum

record validation_result =
  valid :: bool
  error :: "message option"

definition validateImageFile :: "process_env \<Rightarrow> File \<Rightarrow> validation_result" where
  "validateImageFile penv file =
     (if ftype file \<notin> set ALLOWED_MIME_TYPES
      then \<lparr>valid = False, error = Some InvalidFileType\<rparr>
      else if js_gt (size_of file) (MAX_FILE_SIZE penv)
      then \<lparr>valid = False,
            error = Some (FileSizeExceeds (js_div (MAX_FILE_SIZE penv) (js_mul (Num 1024) (Num 1024))))\<rparr>
      else \<lparr>valid = True, error = None\<rparr>)"

section \<open>Storage path planner (lib/image-processing)\<close>

record storage_paths =
  previewPath :: string
  fullPath :: string

definition generateStoragePaths :: "string \<Rightarrow> string \<Rightarrow> storage_paths" where
  "generateStoragePaths userId filename =
     \<lparr>previewPath = userId @ ''/previews/'' @ filename,
      fullPath = userId @ ''/full/'' @ filename\<rparr>"

section \<open>The world outside the handler\<close>

text \<open>A thrown JavaScript exception (a rejected promise).\<close>

datatype exn = Error string

text \<open>
  The rows of the \<open>images\<close> table (\<open>Image\<close> of lib/types; the column \<open>id\<close> is the
  field \<open>image_id\<close>).
\<close>

record Image =
  image_id :: string
  user_id :: string
  filename :: string
  original_filename :: "string option"
  preview_path :: string
  full_path :: string
  file_size_preview :: jsnum
  file_size_full :: jsnum
  mime_type :: string
  width :: jsnum
  height :: jsnum
  created_at :: string
  updated_at :: string

record ImageWithUrls = Image +
  preview_url :: string
  full_url :: string

text \<open>
  Every call that leaves the process is recorded, in order, with its outcome: the two
  kinds of \<open>sharp\<close> pipeline, the bucket operations and the queries on the
  \<open>images\<close> table.
\<close>

datatype event =
    SharpMetadata
  | SharpEncode jsnum jsnum
  | StorageUpload string bool
  | StorageRemove "string list" bool
  | StorageSign string jsnum bool
  | DbInsert bool
  | DbSelect
  | DbDelete bool

record world =
  objects :: "string \<rightharpoonup> buffer"
  images :: "Image list"
  trace :: "event list"

definition log :: "event \<Rightarrow> world \<Rightarrow> world" where
  "log e w = w\<lparr>trace := trace w @ [e]\<rparr>"

text \<open>What \<open>sharp(buffer).metadata()\<close> resolves to (the fields the code reads).\<close>

record Metadata =
  md_width :: "int option"
  md_height :: "int option"
  md_format :: "string option"

text \<open>
  What the collaborators answer during one request. The codec (\<open>sharp\<close>), the uuid
  generator, the storage service and the database are not part of the repository; their
  answers are parameters.
  \<^item> \<open>sharp_metadata\<close>: \<open>sharp(buffer).metadata()\<close>, which rejects (\<open>Inl\<close>) when the
    bytes cannot be decoded;
  \<^item> \<open>sharp_webp b w h q e\<close>:
    \<open>sharp(b).rotate().resize(w, h, {fit: 'inside', withoutEnlargement: true}).webp({quality: q, effort: e}).toBuffer()\<close>;
  \<^item> \<open>upload_error\<close>, \<open>remove_error\<close>: the \<open>error\<close> the bucket reports for a request;
  \<^item> \<open>createSignedUrl\<close>: \<open>Inl\<close> the \<open>error\<close>, \<open>Inr\<close> the signed URL;
  \<^item> \<open>insert_error\<close>, \<open>select_error\<close>, \<open>delete_error\<close>: the \<open>error\<close> the database
    reports; \<open>new_id\<close> and \<open>now\<close> are the defaults it fills in for a new row.
\<close>

record env =
  penv :: process_env
  sharp_metadata :: "buffer \<Rightarrow> exn + Metadata"
  sharp_webp :: "buffer \<Rightarrow> jsnum \<Rightarrow> jsnum \<Rightarrow> jsnum \<Rightarrow> nat \<Rightarrow> exn + buffer"
  uuidv4 :: string
  upload_error :: "string \<Rightarrow> string option"
  remove_error :: "string list \<Rightarrow> string option"
  createSignedUrl :: "string \<Rightarrow> jsnum \<Rightarrow> string + string"
  insert_error :: "string option"
  select_error :: "string option"
  delete_error :: "string option"
  new_id :: string
  now :: string

subsection \<open>Asynchronous functions\<close>

text \<open>
  An \<open>async\<close> function takes the world to a result, a value or a thrown exception, and
  the world it leaves. \<open>await m k\<close> runs \<open>m\<close> and continues with \<open>k\<close> on its value; an
  exception of \<open>m\<close> ends the computation.
\<close>

type_synonym 'a async = "world \<Rightarrow> (exn + 'a) \<times> world"

definition return :: "'a \<Rightarrow> 'a async" where
  "return x = (\<lambda>w. (Inr x, w))"

definition throw :: "exn \<Rightarrow> 'a async" where
  "throw e = (\<lambda>w. (Inl e, w))"

definition await :: "'a async \<Rightarrow> ('a \<Rightarrow> 'b async) \<Rightarrow> 'b async" where
  "await m k = (\<lambda>w. case m w of (Inl e, w') \<Rightarrow> (Inl e, w') | (Inr x, w') \<Rightarrow> k x w')"

text \<open>
  \<open>await Promise.all([p, q])\<close>: both calls are made, in the order written, and the
  \<open>await\<close> returns when both have settled. The two uploads of the handler run
  concurrently on different paths, each a single request to the bucket; the model records
  them in the order they are started. When a call throws, the \<open>await\<close> throws its
  exception (the first one). In this model \<open>uploadFile\<close> can only throw before it has
  sent anything, so it makes no difference that \<open>Promise.all\<close> does not wait for the
  other call then.
\<close>

definition Promise_all2 :: "'a async \<Rightarrow> 'b async \<Rightarrow> ('a \<times> 'b) async" where
  "Promise_all2 p q =
     (\<lambda>w. case p w of (r1, w1) \<Rightarrow>
           (case q w1 of (r2, w2) \<Rightarrow>
              (case r1 of Inl e \<Rightarrow> (Inl e, w2)
               | Inr x \<Rightarrow> (case r2 of Inl e \<Rightarrow> (Inl e, w2) | Inr y \<Rightarrow> (Inr (x, y), w2)))))"

subsection \<open>The storage bucket and the \<open>images\<close> table\<close>

text \<open>
  \<open>storage.from(bucket).upload(path, file, {upsert: false})\<close>: the service reports an
  error, or the path is taken already (no upsert), or the object is stored.
\<close>

definition storage_upload :: "env \<Rightarrow> string \<Rightarrow> buffer \<Rightarrow> world \<Rightarrow> string option \<times> world" where
  "storage_upload env path file w =
     (case upload_error env path of
        Some msg \<Rightarrow> (Some msg, log (StorageUpload path False) w)
      | None \<Rightarrow>
          if objects w path \<noteq> None
          then (Some ''The resource already exists'', log (StorageUpload path False) w)
          else (None, log (StorageUpload path True) (w\<lparr>objects := (objects w)(path \<mapsto> file)\<rparr>)))"

text \<open>\<open>storage.from(bucket).remove(paths)\<close>\<close>

definition storage_remove :: "env \<Rightarrow> string list \<Rightarrow> world \<Rightarrow> string option \<times> world" where
  "storage_remove env paths w =
     (case remove_error env paths of
        Some msg \<Rightarrow> (Some msg, log (StorageRemove paths False) w)
      | None \<Rightarrow>
          (None, log (StorageRemove paths True)
                   (w\<lparr>objects := (\<lambda>p. if p \<in> set paths then None else objects w p)\<rparr>)))"

text \<open>\<open>storage.from(bucket).createSignedUrl(path, expiresIn)\<close>\<close>

definition storage_sign :: "env \<Rightarrow> string \<Rightarrow> jsnum \<Rightarrow> world \<Rightarrow> (string + string) \<times> world" where
  "storage_sign env path expiresIn w =
     (case createSignedUrl env path expiresIn of
        Inl msg \<Rightarrow> (Inl msg, log (StorageSign path expiresIn False) w)
      | Inr url \<Rightarrow> (Inr url, log (StorageSign path expiresIn True) w))"

text \<open>
  \<open>from('images').insert(row).select('*').single()\<close>: the database reports an error, or
  the primary key \<open>id\<close> is taken, or the row is added and returned.
\<close>

definition images_insert :: "env \<Rightarrow> Image \<Rightarrow> world \<Rightarrow> Image option \<times> world" where
  "images_insert env row w =
     (if insert_error env \<noteq> None \<or> image_id row \<in> set (map image_id (images w))
      then (None, log (DbInsert False) w)
      else (Some row, log (DbInsert True) (w\<lparr>images := images w @ [row]\<rparr>)))"

text \<open>
  \<open>from('images').select(..).eq(..).eq(..).single()\<close>: the one row that matches;
  \<open>single()\<close> gives an error unless exactly one row matches.
\<close>

definition images_select_single :: "env \<Rightarrow> (Image \<Rightarrow> bool) \<Rightarrow> world \<Rightarrow> Image option \<times> world" where
  "images_select_single env matches w =
     (if select_error env \<noteq> None then (None, log DbSelect w)
      else case filter matches (images w) of
             [row] \<Rightarrow> (Some row, log DbSelect w)
           | _ \<Rightarrow> (None, log DbSelect w))"

text \<open>\<open>from('images').delete().eq(..).eq(..)\<close>: \<open>True\<close> when the database reports an error.\<close>

definition images_delete :: "env \<Rightarrow> (Image \<Rightarrow> bool) \<Rightarrow> world \<Rightarrow> bool \<times> world" where
  "images_delete env matches w =
     (if delete_error env \<noteq> None then (True, log (DbDelete False) w)
      else (False, log (DbDelete True) (w\<lparr>images := filter (\<lambda>row. \<not> matches row) (images w)\<rparr>)))"

section \<open>Storage helpers (lib/supabase)\<close>

text \<open>
  \<open>getSupabaseAdmin\<close> throws when \<open>SUPABASE_SERVICE_ROLE_KEY\<close> is unset or empty. (The
  module itself does not load without the URL and the anonymous key; a loaded module is
  assumed.)
\<close>

definition getSupabaseAdmin :: "env \<Rightarrow> unit async" where
  "getSupabaseAdmin env =
     (case penv env ''SUPABASE_SERVICE_ROLE_KEY'' of
        None \<Rightarrow> throw (Error ''Missing SUPABASE_SERVICE_ROLE_KEY environment variable'')
      | Some k \<Rightarrow>
          if k = [] then throw (Error ''Missing SUPABASE_SERVICE_ROLE_KEY environment variable'')
          else return ())"

text \<open>\<open>getSignedUrl(path, expiresIn = 3600)\<close>: \<open>None\<close> is \<open>null\<close>.\<close>

definition getSignedUrl :: "env \<Rightarrow> string \<Rightarrow> jsnum option \<Rightarrow> string option async" where
  "getSignedUrl env path expiresIn_arg =
     (let expiresIn = (case expiresIn_arg of None \<Rightarrow> Num 3600 | Some n \<Rightarrow> n)
      in await (getSupabaseAdmin env) (\<lambda>supabase w.
           case storage_sign env path expiresIn w of
             (Inl msg, w') \<Rightarrow> (Inr None, w')
           | (Inr signedUrl, w') \<Rightarrow> (Inr (Some signedUrl), w')))"

text \<open>The result \<open>{ success, error? }\<close> of \<open>uploadFile\<close> and \<open>deleteFiles\<close>.\<close>

record op_result =
  success :: bool
  op_error :: "string option"

text \<open>\<open>uploadFile(path, file, contentType)\<close>: the content type is passed on to the service.\<close>

definition uploadFile :: "env \<Rightarrow> string \<Rightarrow> buffer \<Rightarrow> string \<Rightarrow> op_result async" where
  "uploadFile env path file contentType =
     await (getSupabaseAdmin env) (\<lambda>supabase w.
       case storage_upload env path file w of
         (Some msg, w') \<Rightarrow> (Inr \<lparr>success = False, op_error = Some msg\<rparr>, w')
       | (None, w') \<Rightarrow> (Inr \<lparr>success = True, op_error = None\<rparr>, w'))"

text \<open>
  \<open>deleteFiles(paths)\<close>. Its only caller is the \<open>DELETE\<close> handler of
  app/api/images/[id]/route; the upload handler does not import it.
\<close>

definition deleteFiles :: "env \<Rightarrow> string list \<Rightarrow> op_result async" where
  "deleteFiles env paths =
     await (getSupabaseAdmin env) (\<lambda>supabase w.
       case storage_remove env paths w of
         (Some msg, w') \<Rightarrow> (Inr \<lparr>success = False, op_error = Some msg\<rparr>, w')
       | (None, w') \<Rightarrow> (Inr \<lparr>success = True, op_error = None\<rparr>, w'))"

section \<open>Image operations on the database (lib/db)\<close>

text \<open>
  \<open>saveImageMetadata\<close> returns the inserted row, or \<open>null\<close> (\<open>None\<close>) when the insert
  fails. \<open>deleteImage\<close> reads the row with the given id and owner, deletes it, and returns
  its two storage paths; it returns \<open>null\<close> when the row cannot be read or the deletion
  fails.
\<close>

definition saveImageMetadata ::
  "env \<Rightarrow> string \<Rightarrow> string \<Rightarrow> string \<Rightarrow> string \<Rightarrow> string \<Rightarrow> jsnum \<Rightarrow> jsnum \<Rightarrow> string
     \<Rightarrow> jsnum \<Rightarrow> jsnum \<Rightarrow> Image option async" where
  "saveImageMetadata env userId fname originalFilename previewPath' fullPath' previewSize fullSize
       mimeType width' height' =
     await (getSupabaseAdmin env) (\<lambda>supabase w.
       case images_insert env
              \<lparr>image_id = new_id env,
               user_id = userId,
               filename = fname,
               original_filename = Some originalFilename,
               preview_path = previewPath',
               full_path = fullPath',
               file_size_preview = previewSize,
               file_size_full = fullSize,
               mime_type = mimeType,
               width = width',
               height = height',
               created_at = now env,
               updated_at = now env\<rparr> w of
         (None, w') \<Rightarrow> (Inr None, w')
       | (Some data, w') \<Rightarrow> (Inr (Some data), w'))"

definition deleteImage :: "env \<Rightarrow> string \<Rightarrow> string \<Rightarrow> storage_paths option async" where
  "deleteImage env imageId userId =
     await (getSupabaseAdmin env) (\<lambda>supabase w.
       case images_select_single env (\<lambda>row. image_id row = imageId \<and> user_id row = userId) w of
         (None, w1) \<Rightarrow> (Inr None, w1)
       | (Some img, w1) \<Rightarrow>
           (case images_delete env (\<lambda>row. image_id row = imageId \<and> user_id row = userId) w1 of
              (True, w2) \<Rightarrow> (Inr None, w2)
            | (False, w2) \<Rightarrow>
                (Inr (Some \<lparr>previewPath = preview_path img, fullPath = full_path img\<rparr>), w2)))"

section \<open>The derivative generator (lib/image-processing)\<close>

text \<open>
  A derivative \<open>{ buffer, width, height, size }\<close> (fields \<open>d_buffer\<close>, \<open>d_width\<close>,
  \<open>d_height\<close>, \<open>d_size\<close>) and the result \<open>ProcessedImage\<close> of \<open>processImage\<close>
  (\<open>filename\<close> and \<open>format\<close> are \<open>p_filename\<close> and \<open>p_format\<close>).
\<close>

record Derivative =
  d_buffer :: buffer
  d_width :: jsnum
  d_height :: jsnum
  d_size :: jsnum

record ProcessedImage =
  preview :: Derivative
  full :: Derivative
  p_filename :: string
  p_format :: string

text \<open>\<open>v || dflt\<close> for a dimension that is a number or \<open>undefined\<close>.\<close>

definition or_number :: "int option \<Rightarrow> rat \<Rightarrow> jsnum" where
  "or_number v dflt = (case v of None \<Rightarrow> Num dflt | Some n \<Rightarrow> if n = 0 then Num dflt else Num (of_int n))"

definition processImage :: "env \<Rightarrow> buffer \<Rightarrow> ProcessedImage async" where
  "processImage env inputBuffer =
     (\<lambda>w.
        let fname = uuidv4 env @ ''.webp'';
            w1 = log SharpMetadata w
        in (case sharp_metadata env inputBuffer of
              Inl e \<Rightarrow> (Inl e, w1)
            | Inr metadata \<Rightarrow>
                (let originalWidth = or_number (md_width metadata) 1920;
                     originalHeight = or_number (md_height metadata) 1080;
                     previewWidth = Math_min (PREVIEW_WIDTH (penv env)) originalWidth;
                     previewHeight = Math_round (js_mul (js_div previewWidth originalWidth) originalHeight);
                     w2 = log (SharpEncode previewWidth previewHeight) w1
                 in (case sharp_webp env inputBuffer previewWidth previewHeight
                            (PREVIEW_QUALITY (penv env)) 6 of
                       Inl e \<Rightarrow> (Inl e, w2)
                     | Inr previewBuffer \<Rightarrow>
                         (let fullWidth = Math_min (FULL_WIDTH (penv env)) originalWidth;
                              fullHeight = Math_round (js_mul (js_div fullWidth originalWidth) originalHeight);
                              w3 = log (SharpEncode fullWidth fullHeight) w2
                          in (case sharp_webp env inputBuffer fullWidth fullHeight
                                     (FULL_QUALITY (penv env)) 4 of
                                Inl e \<Rightarrow> (Inl e, w3)
                              | Inr fullBuffer \<Rightarrow>
                                  (Inr \<lparr>preview =
                                          \<lparr>d_buffer = previewBuffer, d_width = previewWidth,
                                           d_height = previewHeight,
                                           d_size = Num (of_nat (length previewBuffer))\<rparr>,
                                        full =
                                          \<lparr>d_buffer = fullBuffer, d_width = fullWidth,
                                           d_height = fullHeight,
                                           d_size = Num (of_nat (length fullBuffer))\<rparr>,
                                        p_filename = fname,
                                        p_format = ''webp''\<rparr>, w3)))))))"

section \<open>The upload handler (app/api/images/route)\<close>

record JWTPayload =
  userId :: string
  email :: string
  role :: string

record RateLimitResult =
  rl_success :: bool
  remainingPoints :: jsnum
  msBeforeNext :: jsnum

text \<open>
  What the handler reads from the request: what \<open>getCurrentUser()\<close> resolves to for its
  cookie, what \<open>checkUploadRateLimit\<close> answers for its key, and the \<open>file\<close> field of
  its form data (reading the form data throws on a body that is not a form).
\<close>

record request =
  currentUser :: "JWTPayload option"
  uploadRateLimit :: RateLimitResult
  formData_file :: "exn + File option"

text \<open>The JSON body \<open>ApiResponse\<close> and the response with its status.\<close>

datatype 'a ApiResponse = Failure "message option" | Success 'a string

datatype 'a NextResponse = Json (status: nat) (body: "'a ApiResponse")

text \<open>\<open>url || ''\<close>\<close>

definition or_empty :: "string option \<Rightarrow> string" where
  "or_empty url = (case url of None \<Rightarrow> [] | Some u \<Rightarrow> u)"

text \<open>The body of the handler's \<open>try\<close> block.\<close>

definition POST_try :: "env \<Rightarrow> request \<Rightarrow> ImageWithUrls NextResponse async" where
  "POST_try env request =
     (case currentUser request of
        None \<Rightarrow> return (Json 401 (Failure (Some (Text ''Unauthorized''))))
      | Some session \<Rightarrow>
          if \<not> rl_success (uploadRateLimit request)
          then return (Json 429 (Failure (Some (RateLimitError (msBeforeNext (uploadRateLimit request))))))
          else
            (case formData_file request of
               Inl e \<Rightarrow> throw e
             | Inr None \<Rightarrow> return (Json 400 (Failure (Some (Text ''No file provided''))))
             | Inr (Some file) \<Rightarrow>
                 let validation = validateImageFile (penv env) file
                 in if \<not> valid validation
                    then return (Json 400 (Failure (error validation)))
                    else
                      await (processImage env (content file)) (\<lambda>processed.
                        let paths = generateStoragePaths (userId session) (p_filename processed)
                        in await (Promise_all2
                                    (uploadFile env (previewPath paths) (d_buffer (preview processed)) ''image/webp'')
                                    (uploadFile env (fullPath paths) (d_buffer (full processed)) ''image/webp''))
                             (\<lambda>(previewUpload, fullUpload).
                                if \<not> success previewUpload \<or> \<not> success fullUpload
                                then return (Json 500 (Failure (Some (Text ''Failed to upload image to storage''))))
                                else
                                  await (saveImageMetadata env (userId session) (p_filename processed)
                                           (name file) (previewPath paths) (fullPath paths)
                                           (d_size (preview processed)) (d_size (full processed))
                                           ''image/webp''
                                           (d_width (full processed)) (d_height (full processed)))
                                    (\<lambda>saved.
                                       case saved of
                                         None \<Rightarrow> return (Json 500 (Failure (Some (Text ''Failed to save image metadata''))))
                                       | Some savedImage \<Rightarrow>
                                           await (getSignedUrl env (previewPath paths) None) (\<lambda>previewUrl.
                                             await (getSignedUrl env (fullPath paths) None) (\<lambda>fullUrl.
                                               return (Json 200
                                                 (Success
                                                    (Image.extend savedImage
                                                       (ImageWithUrls.fields (or_empty previewUrl) (or_empty fullUrl)))
                                                    ''Image uploaded successfully'')))))))))"

text \<open>The handler: whatever the \<open>try\<close> block throws becomes the same 500 response.\<close>

definition POST :: "env \<Rightarrow> request \<Rightarrow> world \<Rightarrow> ImageWithUrls NextResponse \<times> world" where
  "POST env request w =
     (case POST_try env request w of
        (Inl e, w') \<Rightarrow> (Json 500 (Failure (Some (Text ''Failed to upload image''))), w')
      | (Inr response, w') \<Rightarrow> (response, w'))"

section \<open>Auxiliary definitions for the properties\<close>

text \<open>
  The events a run has added to the trace; whether the service role key is set; the
  response of the handler's \<open>catch\<close> block.
\<close>

definition new_events :: "world \<Rightarrow> world \<Rightarrow> event list" where
  "new_events w w' = drop (length (trace w)) (trace w')"

definition key_ok :: "env \<Rightarrow> bool" where
  "key_ok env \<longleftrightarrow> (case penv env ''SUPABASE_SERVICE_ROLE_KEY'' of None \<Rightarrow> False | Some k \<Rightarrow> k \<noteq> [])"

definition catch_response :: "ImageWithUrls NextResponse" where
  "catch_response = Json 500 (Failure (Some (Text ''Failed to upload image'')))"

text \<open>
  The handler's continuation after the insert (\<open>POST_sign\<close>), after the uploads
  (\<open>POST_save\<close>) and after \<open>processImage\<close> (\<open>POST_store\<close>), named so that each
  stage can be reasoned about on its own; \<open>POST_try_stages\<close> shows that \<open>POST_try\<close>
  is their composition.
\<close>

definition POST_sign :: "env \<Rightarrow> storage_paths \<Rightarrow> Image \<Rightarrow> ImageWithUrls NextResponse async" where
  "POST_sign env paths savedImage =
     await (getSignedUrl env (previewPath paths) None) (\<lambda>previewUrl.
       await (getSignedUrl env (fullPath paths) None) (\<lambda>fullUrl.
         return (Json 200
           (Success
              (Image.extend savedImage
                 (ImageWithUrls.fields (or_empty previewUrl) (or_empty fullUrl)))
              ''Image uploaded successfully''))))"

definition POST_save ::
  "env \<Rightarrow> JWTPayload \<Rightarrow> File \<Rightarrow> ProcessedImage \<Rightarrow> storage_paths \<Rightarrow> ImageWithUrls NextResponse async" where
  "POST_save env session file processed paths =
     await (saveImageMetadata env (userId session) (p_filename processed)
              (name file) (previewPath paths) (fullPath paths)
              (d_size (preview processed)) (d_size (full processed))
              ''image/webp''
              (d_width (full processed)) (d_height (full processed)))
       (\<lambda>saved.
          case saved of
            None \<Rightarrow> return (Json 500 (Failure (Some (Text ''Failed to save image metadata''))))
          | Some savedImage \<Rightarrow> POST_sign env paths savedImage)"

definition POST_store ::
  "env \<Rightarrow> JWTPayload \<Rightarrow> File \<Rightarrow> ProcessedImage \<Rightarrow> ImageWithUrls NextResponse async" where
  "POST_store env session file processed =
     (let paths = generateStoragePaths (userId session) (p_filename processed)
      in await (Promise_all2
                  (uploadFile env (previewPath paths) (d_buffer (preview processed)) ''image/webp'')
                  (uploadFile env (fullPath paths) (d_buffer (full processed)) ''image/webp''))
           (\<lambda>(previewUpload, fullUpload).
              if \<not> success previewUpload \<or> \<not> success fullUpload
              then return (Json 500 (Failure (Some (Text ''Failed to upload image to storage''))))
              else POST_save env session file processed paths))"

text \<open>
  The row the handler asks the database to insert, the URL it puts in the response, the
  events of the codec, and the outcome of one upload request.
\<close>

definition image_row :: "env \<Rightarrow> JWTPayload \<Rightarrow> File \<Rightarrow> ProcessedImage \<Rightarrow> Image" where
  "image_row env session file processed =
     \<lparr>image_id = new_id env,
      user_id = userId session,
      filename = p_filename processed,
      original_filename = Some (name file),
      preview_path = previewPath (generateStoragePaths (userId session) (p_filename processed)),
      full_path = fullPath (generateStoragePaths (userId session) (p_filename processed)),
      file_size_preview = d_size (preview processed),
      file_size_full = d_size (full processed),
      mime_type = ''image/webp'',
      width = d_width (full processed),
      height = d_height (full processed),
      created_at = now env,
      updated_at = now env\<rparr>"

definition signed_or_empty :: "env \<Rightarrow> string \<Rightarrow> string" where
  "signed_or_empty env path = (case createSignedUrl env path (Num 3600) of Inl msg \<Rightarrow> [] | Inr url \<Rightarrow> url)"

fun is_sharp :: "event \<Rightarrow> bool" where
  "is_sharp SharpMetadata = True"
| "is_sharp (SharpEncode a b) = True"
| "is_sharp e = False"

definition upload_succeeds :: "env \<Rightarrow> world \<Rightarrow> string \<Rightarrow> bool" where
  "upload_succeeds env w path \<longleftrightarrow> upload_error env path = None \<and> objects w path = None"

definition upload_world :: "env \<Rightarrow> string \<Rightarrow> buffer \<Rightarrow> world \<Rightarrow> world" where
  "upload_world env path file w =
     (if upload_succeeds env w path
      then w\<lparr>objects := (objects w)(path \<mapsto> file), trace := trace w @ [StorageUpload path True]\<rparr>
      else w\<lparr>trace := trace w @ [StorageUpload path False]\<rparr>)"

section \<open>An example deployment\<close>

text \<open>
  A deployment with the default configuration, in which every collaborator answers
  without error, one request uploading a 4000 by 3000 JPEG, and variants of both in which
  one collaborator fails. They are the concrete inputs of the example runs below.
\<close>

definition example_penv :: process_env where
  "example_penv = [''SUPABASE_SERVICE_ROLE_KEY'' \<mapsto> ''service-key'']"

definition example_env :: env where
  "example_env =
     \<lparr>penv = example_penv,
      sharp_metadata = (\<lambda>b. if b = [] then Inl (Error ''Input Buffer is empty'')
                            else Inr \<lparr>md_width = Some 4000, md_height = Some 3000, md_format = Some ''jpeg''\<rparr>),
      sharp_webp = (\<lambda>b w h q e. Inr (if e = 6 then [1, 2] else [3, 4, 5])),
      uuidv4 = ''0f8fad5b'',
      upload_error = (\<lambda>p. None),
      remove_error = (\<lambda>ps. None),
      createSignedUrl = (\<lambda>p t. Inr (''https://signed/'' @ p)),
      insert_error = None,
      select_error = None,
      delete_error = None,
      new_id = ''img-1'',
      now = ''2024-01-01T00:00:00Z''\<rparr>"

definition empty_world :: world where
  "empty_world = \<lparr>objects = Map.empty, images = [], trace = []\<rparr>"

definition example_request :: request where
  "example_request =
     \<lparr>currentUser = Some \<lparr>userId = ''user-1'', email = ''u@example.org'', role = ''user''\<rparr>,
      uploadRateLimit = \<lparr>rl_success = True, remainingPoints = Num 19, msBeforeNext = Num 0\<rparr>,
      formData_file = Inr (Some \<lparr>name = ''photo.jpg'', ftype = ''image/jpeg'', content = [7]\<rparr>)\<rparr>"

definition insert_down_env :: env where
  "insert_down_env = example_env\<lparr>insert_error := Some ''connection refused''\<rparr>"

definition full_upload_down_env :: env where
  "full_upload_down_env =
     example_env\<lparr>upload_error := (\<lambda>p. if p = ''user-1/full/0f8fad5b.webp'' then Some ''Bad Gateway'' else None)\<rparr>"

definition example_processed :: ProcessedImage where
  "example_processed =
     \<lparr>preview = \<lparr>d_buffer = [1, 2], d_width = Num 300, d_height = Num 225, d_size = Num 2\<rparr>,
      full = \<lparr>d_buffer = [3, 4, 5], d_width = Num 2000, d_height = Num 1500, d_size = Num 3\<rparr>,
      p_filename = ''0f8fad5b.webp'', p_format = ''webp''\<rparr>"

definition sign_down_env :: env where
  "sign_down_env = example_env\<lparr>createSignedUrl := (\<lambda>p t. Inl ''Service Unavailable'')\<rparr>"


definition oversize_file :: File where
  "oversize_file = \<lparr>name = ''big.jpg'', ftype = ''image/jpeg'', content = replicate 10485761 0\<rparr>"

definition limit_file :: File where
  "limit_file = \<lparr>name = ''limit.jpg'', ftype = ''image/jpeg'', content = replicate 10485760 0\<rparr>"

definition pdf_file :: File where
  "pdf_file = \<lparr>name = ''doc.pdf'', ftype = ''application/pdf'', content = [37, 80, 68, 70]\<rparr>"




definition example_row :: "string \<Rightarrow> string \<Rightarrow> Image" where
  "example_row i u =
     \<lparr>image_id = i, user_id = u, filename = i @ ''.webp'', original_filename = Some ''photo.jpg'',
      preview_path = u @ ''/previews/'' @ i @ ''.webp'', full_path = u @ ''/full/'' @ i @ ''.webp'',
      file_size_preview = Num 2, file_size_full = Num 3, mime_type = ''image/webp'',
      width = Num 2000, height = Num 1500,
      created_at = ''2024-01-01T00:00:00Z'', updated_at = ''2024-01-01T00:00:00Z''\<rparr>"

definition two_images_world :: world where
  "two_images_world =
     \<lparr>objects = Map.empty, images = [example_row ''a'' ''user-1'', example_row ''b'' ''user-2''],
      trace = []\<rparr>"

section \<open>Basic facts\<close>









lemma getSupabaseAdmin_ok: "key_ok env \<Longrightarrow> getSupabaseAdmin env = return ()"
  by (auto simp: key_ok_def getSupabaseAdmin_def split: option.splits)

lemma getSupabaseAdmin_missing:
  "\<not> key_ok env \<Longrightarrow> getSupabaseAdmin env = throw (Error ''Missing SUPABASE_SERVICE_ROLE_KEY environment variable'')"
  by (auto simp: key_ok_def getSupabaseAdmin_def split: option.splits)

lemma POST_try_stages:
  "POST_try env request =
     (case currentUser request of
        None \<Rightarrow> return (Json 401 (Failure (Some (Text ''Unauthorized''))))
      | Some session \<Rightarrow>
          if \<not> rl_success (uploadRateLimit request)
          then return (Json 429 (Failure (Some (RateLimitError (msBeforeNext (uploadRateLimit request))))))
          else
            (case formData_file request of
               Inl e \<Rightarrow> throw e
             | Inr None \<Rightarrow> return (Json 400 (Failure (Some (Text ''No file provided''))))
             | Inr (Some file) \<Rightarrow>
                 if \<not> valid (validateImageFile (penv env) file)
                 then return (Json 400 (Failure (error (validateImageFile (penv env) file))))
                 else await (processImage env (content file)) (POST_store env session file)))"
  unfolding POST_try_def POST_store_def POST_save_def POST_sign_def Let_def
  by (rule refl)

lemma getSignedUrl_ok:
  assumes "key_ok env"
  shows "getSignedUrl env path None w =
     (Inr (case createSignedUrl env path (Num 3600) of Inl msg \<Rightarrow> None | Inr url \<Rightarrow> Some url),
      w\<lparr>trace := trace w @ [StorageSign path (Num 3600) (\<not> isl (createSignedUrl env path (Num 3600)))]\<rparr>)"
  by (simp add: getSignedUrl_def getSupabaseAdmin_ok[OF assms] await_def return_def
      storage_sign_def log_def Let_def split: sum.splits)

lemma POST_sign_ok:
  assumes "key_ok env"
  shows "POST_sign env paths savedImage w =
     (Inr (Json 200 (Success (Image.extend savedImage
              (ImageWithUrls.fields (signed_or_empty env (previewPath paths))
                                    (signed_or_empty env (fullPath paths))))
            ''Image uploaded successfully'')),
      w\<lparr>trace := trace w @
          [StorageSign (previewPath paths) (Num 3600) (\<not> isl (createSignedUrl env (previewPath paths) (Num 3600))),
           StorageSign (fullPath paths) (Num 3600) (\<not> isl (createSignedUrl env (fullPath paths) (Num 3600)))]\<rparr>)"
  by (simp add: POST_sign_def getSignedUrl_ok[OF assms] await_def return_def
      or_empty_def signed_or_empty_def split: sum.splits)

lemma POST_save_ok:
  assumes "key_ok env"
  shows "POST_save env session file processed (generateStoragePaths (userId session) (p_filename processed)) w =
     (if insert_error env \<noteq> None \<or> new_id env \<in> set (map image_id (images w))
      then (Inr (Json 500 (Failure (Some (Text ''Failed to save image metadata'')))),
            w\<lparr>trace := trace w @ [DbInsert False]\<rparr>)
      else POST_sign env (generateStoragePaths (userId session) (p_filename processed))
             (image_row env session file processed)
             (w\<lparr>images := images w @ [image_row env session file processed],
                trace := trace w @ [DbInsert True]\<rparr>))"
  by (simp add: POST_save_def saveImageMetadata_def getSupabaseAdmin_ok[OF assms] await_def return_def
      images_insert_def log_def image_row_def)

lemma processImage_sharp:
  assumes "processImage env b w = (r, w')"
  shows "objects w' = objects w \<and> images w' = images w
       \<and> (\<exists>evs. trace w' = trace w @ evs \<and> (\<forall>e \<in> set evs. is_sharp e))"
  using assms
  by (auto simp: processImage_def Let_def log_def split: sum.splits)

lemma uploadFile_ok:
  assumes "key_ok env"
  shows "\<exists>r. uploadFile env path file contentType w = (Inr r, upload_world env path file w)
            \<and> success r = upload_succeeds env w path"
  by (auto simp: uploadFile_def getSupabaseAdmin_ok[OF assms] await_def return_def storage_upload_def
      log_def upload_world_def upload_succeeds_def split: option.splits)

lemma POST_store_ok:
  assumes "key_ok env"
  shows "POST_store env session file processed w =
     (let paths = generateStoragePaths (userId session) (p_filename processed);
          w2 = upload_world env (previewPath paths) (d_buffer (preview processed)) w;
          w3 = upload_world env (fullPath paths) (d_buffer (full processed)) w2
      in if upload_succeeds env w (previewPath paths) \<and> upload_succeeds env w2 (fullPath paths)
         then POST_save env session file processed paths w3
         else (Inr (Json 500 (Failure (Some (Text ''Failed to upload image to storage'')))), w3))"
proof -
  define paths where "paths = generateStoragePaths (userId session) (p_filename processed)"
  define w2 where "w2 = upload_world env (previewPath paths) (d_buffer (preview processed)) w"
  define w3 where "w3 = upload_world env (fullPath paths) (d_buffer (full processed)) w2"
  obtain r1 where r1: "uploadFile env (previewPath paths) (d_buffer (preview processed)) ''image/webp'' w = (Inr r1, w2)"
    "success r1 = upload_succeeds env w (previewPath paths)"
    using uploadFile_ok[OF assms] unfolding w2_def by blast
  obtain r2 where r2: "uploadFile env (fullPath paths) (d_buffer (full processed)) ''image/webp'' w2 = (Inr r2, w3)"
    "success r2 = upload_succeeds env w2 (fullPath paths)"
    using uploadFile_ok[OF assms] unfolding w3_def by blast
  show ?thesis
    unfolding POST_store_def Let_def paths_def[symmetric] w2_def[symmetric] w3_def[symmetric]
    by (simp add: await_def Promise_all2_def r1 r2 return_def)
qed

lemma POST_store_missing_key:
  assumes "\<not> key_ok env"
  shows "POST_store env session file processed w =
           (Inl (Error ''Missing SUPABASE_SERVICE_ROLE_KEY environment variable''), w)"
  by (simp add: POST_store_def Let_def await_def Promise_all2_def uploadFile_def
      getSupabaseAdmin_missing[OF assms] throw_def)

lemma POST_stages:
  "POST env request w =
     (case currentUser request of
        None \<Rightarrow> (Json 401 (Failure (Some (Text ''Unauthorized''))), w)
      | Some session \<Rightarrow>
          if \<not> rl_success (uploadRateLimit request)
          then (Json 429 (Failure (Some (RateLimitError (msBeforeNext (uploadRateLimit request))))), w)
          else
            (case formData_file request of
               Inl e \<Rightarrow> (catch_response, w)
             | Inr None \<Rightarrow> (Json 400 (Failure (Some (Text ''No file provided''))), w)
             | Inr (Some file) \<Rightarrow>
                 if \<not> valid (validateImageFile (penv env) file)
                 then (Json 400 (Failure (error (validateImageFile (penv env) file))), w)
                 else (case processImage env (content file) w of
                         (Inl e, w1) \<Rightarrow> (catch_response, w1)
                       | (Inr processed, w1) \<Rightarrow>
                           (case POST_store env session file processed w1 of
                              (Inl e, w2) \<Rightarrow> (catch_response, w2)
                            | (Inr response, w2) \<Rightarrow> (response, w2)))))"
  by (simp add: POST_def POST_try_stages await_def return_def throw_def catch_response_def
      split: option.splits sum.splits prod.splits)

lemma upload_world_fields:
  "images (upload_world env path file w) = images w"
  "trace (upload_world env path file w) = trace w @ [StorageUpload path (upload_succeeds env w path)]"
  "objects (upload_world env path file w)
     = (if upload_succeeds env w path then (objects w)(path \<mapsto> file) else objects w)"
  by (simp_all add: upload_world_def)

lemma paths_distinct:
  "previewPath (generateStoragePaths u f) \<noteq> fullPath (generateStoragePaths u f)"
  by (simp add: generateStoragePaths_def)

lemma POST_store_outcome [consumes 1, case_names thrown upload_failed insert_failed signed]:
  assumes run: "POST_store env session ufile processed w = (r, w')"
  defines "pp \<equiv> previewPath (generateStoragePaths (userId session) (p_filename processed))"
  defines "fp \<equiv> fullPath (generateStoragePaths (userId session) (p_filename processed))"
  defines "pb \<equiv> d_buffer (preview processed)"
  defines "fb \<equiv> d_buffer (full processed)"
  defines "row \<equiv> image_row env session ufile processed"
  obtains
    (thrown) e where "r = Inl e" and "w' = w"
  | (upload_failed) b1 b2 where "\<not> (b1 \<and> b2)"
      and "r = Inr (Json 500 (Failure (Some (Text ''Failed to upload image to storage''))))"
      and "trace w' = trace w @ [StorageUpload pp b1, StorageUpload fp b2]"
      and "images w' = images w"
      and "b1 \<longrightarrow> objects w pp = None \<and> objects w' pp = Some pb"
      and "b2 \<longrightarrow> objects w fp = None \<and> objects w' fp = Some fb"
  | (insert_failed)
      "r = Inr (Json 500 (Failure (Some (Text ''Failed to save image metadata''))))"
      and "trace w' = trace w @ [StorageUpload pp True, StorageUpload fp True, DbInsert False]"
      and "images w' = images w"
      and "objects w pp = None" and "objects w fp = None"
      and "objects w' = (objects w)(pp \<mapsto> pb, fp \<mapsto> fb)"
  | (signed)
      "r = Inr (Json 200 (Success (Image.extend row
                      (ImageWithUrls.fields (signed_or_empty env pp) (signed_or_empty env fp)))
                    ''Image uploaded successfully''))"
      and "trace w' = trace w @
                   [StorageUpload pp True, StorageUpload fp True, DbInsert True,
                    StorageSign pp (Num 3600) (\<not> isl (createSignedUrl env pp (Num 3600))),
                    StorageSign fp (Num 3600) (\<not> isl (createSignedUrl env fp (Num 3600)))]"
      and "images w' = images w @ [row]"
      and "objects w pp = None" and "objects w fp = None"
      and "objects w' = (objects w)(pp \<mapsto> pb, fp \<mapsto> fb)"
proof (cases "key_ok env")
  case False
  then have "r = Inl (Error ''Missing SUPABASE_SERVICE_ROLE_KEY environment variable'')" and "w' = w"
    using run by (auto simp: POST_store_missing_key)
  then show ?thesis by (rule thrown)
next
  case True
  have d: "pp \<noteq> fp" unfolding pp_def fp_def by (rule paths_distinct)
  define w2 where "w2 = upload_world env pp pb w"
  define w3 where "w3 = upload_world env fp fb w2"
  define b1 where "b1 = upload_succeeds env w pp"
  define b2 where "b2 = upload_succeeds env w2 fp"
  have eq: "POST_store env session ufile processed w =
              (if b1 \<and> b2
               then POST_save env session ufile processed
                      (generateStoragePaths (userId session) (p_filename processed)) w3
               else (Inr (Json 500 (Failure (Some (Text ''Failed to upload image to storage'')))), w3))"
    unfolding POST_store_ok[OF True] Let_def pp_def[symmetric] fp_def[symmetric]
      pb_def[symmetric] fb_def[symmetric] w2_def[symmetric] w3_def[symmetric]
      b1_def[symmetric] b2_def[symmetric]
    by (rule refl)
  have t3: "trace w3 = trace w @ [StorageUpload pp b1, StorageUpload fp b2]"
    and i3: "images w3 = images w"
    by (simp_all add: w3_def w2_def b1_def b2_def upload_world_fields)
  have o2: "objects w2 = (if b1 then (objects w)(pp \<mapsto> pb) else objects w)"
    by (simp add: w2_def b1_def upload_world_fields)
  have o3: "objects w3 = (if b2 then (objects w2)(fp \<mapsto> fb) else objects w2)"
    by (simp add: w3_def b2_def upload_world_fields)
  have n1: "b1 \<Longrightarrow> objects w pp = None" by (simp add: b1_def upload_succeeds_def)
  have n2: "b2 \<Longrightarrow> objects w fp = None"
    using d by (simp add: b2_def upload_succeeds_def o2 split: if_splits)
  have s1: "b1 \<Longrightarrow> objects w3 pp = Some pb" using d by (simp add: o3 o2)
  have s2: "b2 \<Longrightarrow> objects w3 fp = Some fb" by (simp add: o3)
  show ?thesis
  proof (cases "b1 \<and> b2")
    case False
    have r: "r = Inr (Json 500 (Failure (Some (Text ''Failed to upload image to storage''))))"
      and w: "w' = w3"
      using run False unfolding eq by simp_all
    show ?thesis
    proof (rule upload_failed[of b1 b2])
      show "\<not> (b1 \<and> b2)" by (rule False)
      show "r = Inr (Json 500 (Failure (Some (Text ''Failed to upload image to storage''))))" by (rule r)
      show "trace w' = trace w @ [StorageUpload pp b1, StorageUpload fp b2]" by (simp add: w t3)
      show "images w' = images w" by (simp add: w i3)
      show "b1 \<longrightarrow> objects w pp = None \<and> objects w' pp = Some pb" using n1 s1 by (simp add: w)
      show "b2 \<longrightarrow> objects w fp = None \<and> objects w' fp = Some fb" using n2 s2 by (simp add: w)
    qed
  next
    case both: True
    then have b1: b1 and b2: b2 by simp_all
    have o3': "objects w3 = (objects w)(pp \<mapsto> pb, fp \<mapsto> fb)" using b1 b2 by (simp add: o3 o2)
    have t3': "trace w3 = trace w @ [StorageUpload pp True, StorageUpload fp True]"
      using b1 b2 by (simp add: t3)
    show ?thesis
    proof (cases "insert_error env \<noteq> None \<or> new_id env \<in> set (map image_id (images w3))")
      case True
      have r: "r = Inr (Json 500 (Failure (Some (Text ''Failed to save image metadata''))))"
        and w: "w' = w3\<lparr>trace := trace w3 @ [DbInsert False]\<rparr>"
        using run both True unfolding eq POST_save_ok[OF \<open>key_ok env\<close>] by simp_all
      show ?thesis
      proof (rule insert_failed)
        show "r = Inr (Json 500 (Failure (Some (Text ''Failed to save image metadata''))))" by (rule r)
        show "trace w' = trace w @ [StorageUpload pp True, StorageUpload fp True, DbInsert False]"
          by (simp add: w t3')
        show "images w' = images w" by (simp add: w i3)
        show "objects w pp = None" by (rule n1[OF b1])
        show "objects w fp = None" by (rule n2[OF b2])
        show "objects w' = (objects w)(pp \<mapsto> pb, fp \<mapsto> fb)" by (simp add: w o3')
      qed
    next
      case False
      have r: "r = Inr (Json 200 (Success (Image.extend row
                      (ImageWithUrls.fields (signed_or_empty env pp) (signed_or_empty env fp)))
                    ''Image uploaded successfully''))"
        and w: "w' = w3\<lparr>images := images w3 @ [row],
                  trace := trace w3 @ [DbInsert True] @
                   [StorageSign pp (Num 3600) (\<not> isl (createSignedUrl env pp (Num 3600))),
                    StorageSign fp (Num 3600) (\<not> isl (createSignedUrl env fp (Num 3600)))]\<rparr>"
        using run both False
        unfolding eq POST_save_ok[OF \<open>key_ok env\<close>] POST_sign_ok[OF \<open>key_ok env\<close>]
          pp_def[symmetric] fp_def[symmetric] row_def[symmetric]
        by simp_all
      show ?thesis
      proof (rule signed)
        show "r = Inr (Json 200 (Success (Image.extend row
                      (ImageWithUrls.fields (signed_or_empty env pp) (signed_or_empty env fp)))
                    ''Image uploaded successfully''))" by (rule r)
        show "trace w' = trace w @
                   [StorageUpload pp True, StorageUpload fp True, DbInsert True,
                    StorageSign pp (Num 3600) (\<not> isl (createSignedUrl env pp (Num 3600))),
                    StorageSign fp (Num 3600) (\<not> isl (createSignedUrl env fp (Num 3600)))]"
          by (simp add: w t3')
        show "images w' = images w @ [row]" by (simp add: w i3)
        show "objects w pp = None" by (rule n1[OF b1])
        show "objects w fp = None" by (rule n2[OF b2])
        show "objects w' = (objects w)(pp \<mapsto> pb, fp \<mapsto> fb)" by (simp add: w o3')
      qed
    qed
  qed
qed

lemma POST_phases:
  assumes "POST env request w = (response, w')"
  obtains (early) "w' = w" and "status response \<noteq> 200"
  | (decode) ufile e where "processImage env (content (ufile::File)) w = (Inl e, w')"
      and "response = catch_response"
  | (store) session ufile processed w1 r where
      "processImage env (content ufile) w = (Inr processed, w1)"
      and "POST_store env session ufile processed w1 = (r, w')"
      and "response = (case r of Inl e \<Rightarrow> catch_response | Inr x \<Rightarrow> x)"
proof (cases "currentUser request")
  case None
  then show ?thesis using assms early by (auto simp: POST_stages)
next
  case (Some session)
  note user = this
  show ?thesis
  proof (cases "rl_success (uploadRateLimit request)")
    case False
    then show ?thesis using assms early user by (auto simp: POST_stages)
  next
    case True
    note rl = this
    show ?thesis
    proof (cases "formData_file request")
      case (Inl e)
      then show ?thesis using assms early user rl by (auto simp: POST_stages catch_response_def)
    next
      case (Inr fo)
      show ?thesis
      proof (cases fo)
        case None
        then show ?thesis using assms early user rl Inr by (auto simp: POST_stages)
      next
        case (Some ufile)
        note ff = Inr[unfolded this]
        show ?thesis
        proof (cases "valid (validateImageFile (penv env) ufile)")
          case False
          then show ?thesis using assms early user rl ff by (auto simp: POST_stages)
        next
          case True
          note ok = this
          obtain pr w1 where p: "processImage env (content ufile) w = (pr, w1)"
            by (cases "processImage env (content ufile) w")
          show ?thesis
          proof (cases pr)
            case (Inl e)
            then show ?thesis
              using assms user rl ff ok p decode[of ufile e] by (auto simp: POST_stages)
          next
            case (Inr processed)
            obtain r w2 where s: "POST_store env session ufile processed w1 = (r, w2)"
              by (cases "POST_store env session ufile processed w1")
            have "w2 = w'" and "response = (case r of Inl e \<Rightarrow> catch_response | Inr x \<Rightarrow> x)"
              using assms user rl ff ok p Inr s
              by (auto simp: POST_stages split: sum.splits)
            then show ?thesis using store[of ufile processed w1 session r] p Inr s by simp
          qed
        qed
      qed
    qed
  qed
qed

lemma POST_runs [consumes 1, case_names quiet upload_failed insert_failed signed]:
  assumes run: "POST env request w = (response, w')"
  obtains
    (quiet) evsP where "\<forall>e \<in> set evsP. is_sharp e"
      and "trace w' = trace w @ evsP" and "objects w' = objects w" and "images w' = images w"
      and "status response \<noteq> 200"
  | (upload_failed) evsP pp fp pb fb b1 b2 where "\<forall>e \<in> set evsP. is_sharp e"
      and "pp \<noteq> fp" and "\<not> (b1 \<and> b2)"
      and "response = Json 500 (Failure (Some (Text ''Failed to upload image to storage'')))"
      and "trace w' = trace w @ evsP @ [StorageUpload pp b1, StorageUpload fp b2]"
      and "images w' = images w"
      and "b1 \<longrightarrow> objects w pp = None \<and> objects w' pp = Some pb"
      and "b2 \<longrightarrow> objects w fp = None \<and> objects w' fp = Some fb"
  | (insert_failed) evsP pp fp pb fb where "\<forall>e \<in> set evsP. is_sharp e"
      and "pp \<noteq> fp"
      and "response = Json 500 (Failure (Some (Text ''Failed to save image metadata'')))"
      and "trace w' = trace w @ evsP @ [StorageUpload pp True, StorageUpload fp True, DbInsert False]"
      and "images w' = images w"
      and "objects w pp = None" and "objects w fp = None"
      and "objects w' = (objects w)(pp \<mapsto> pb, fp \<mapsto> fb)"
  | (signed) evsP pp fp pb fb row where "\<forall>e \<in> set evsP. is_sharp e"
      and "pp \<noteq> fp" and "preview_path row = pp" and "full_path row = fp"
      and "response = Json 200 (Success (Image.extend row
                      (ImageWithUrls.fields (signed_or_empty env pp) (signed_or_empty env fp)))
                    ''Image uploaded successfully'')"
      and "trace w' = trace w @ evsP @
                   [StorageUpload pp True, StorageUpload fp True, DbInsert True,
                    StorageSign pp (Num 3600) (\<not> isl (createSignedUrl env pp (Num 3600))),
                    StorageSign fp (Num 3600) (\<not> isl (createSignedUrl env fp (Num 3600)))]"
      and "images w' = images w @ [row]"
      and "objects w pp = None" and "objects w fp = None"
      and "objects w' = (objects w)(pp \<mapsto> pb, fp \<mapsto> fb)"
  using run
proof (cases rule: POST_phases)
  case early
  show ?thesis
    by (rule quiet[of "[]"]) (use early in simp_all)
next
  case (decode ufile e)
  from processImage_sharp[OF decode(1)] obtain evsP where
    p: "objects w' = objects w" "images w' = images w" "trace w' = trace w @ evsP"
      "\<forall>e \<in> set evsP. is_sharp e"
    by blast
  have "status response \<noteq> 200" using decode(2) by (simp add: catch_response_def)
  with p show ?thesis by (intro quiet[of evsP])
next
  case (store session ufile processed w1 r)
  from processImage_sharp[OF store(1)] obtain evsP where
    p: "objects w1 = objects w" "images w1 = images w" "trace w1 = trace w @ evsP"
      "\<forall>e \<in> set evsP. is_sharp e"
    by blast
  define pp where "pp = previewPath (generateStoragePaths (userId session) (p_filename processed))"
  define fp where "fp = fullPath (generateStoragePaths (userId session) (p_filename processed))"
  define pb where "pb = d_buffer (preview processed)"
  define fb where "fb = d_buffer (full processed)"
  define row where "row = image_row env session ufile processed"
  have d: "pp \<noteq> fp" unfolding pp_def fp_def by (rule paths_distinct)
  have rp: "preview_path row = pp" "full_path row = fp"
    by (simp_all add: row_def image_row_def pp_def fp_def)
  from store(2) show ?thesis
  proof (cases rule: POST_store_outcome)
    case (thrown e)
    show ?thesis
      by (rule quiet[of evsP]) (use thrown p store(3) in \<open>simp_all add: catch_response_def\<close>)
  next
    case (upload_failed b1 b2)
    show ?thesis
      by (rule that(2)[of evsP pp fp b1 b2 pb fb])
        (use upload_failed[folded pp_def fp_def pb_def fb_def] p d store(3) in simp_all)
  next
    case insert_failed
    show ?thesis
      by (rule that(3)[of evsP pp fp pb fb])
        (use insert_failed[folded pp_def fp_def pb_def fb_def] p d store(3) in simp_all)
  next
    case signed
    show ?thesis
      by (rule that(4)[of evsP pp fp row pb fb])
        (use signed[folded pp_def fp_def pb_def fb_def row_def] p d rp store(3) in simp_all)
  qed
qed

lemma new_events_append: "trace w' = trace w @ evs \<Longrightarrow> new_events w w' = evs"
  by (simp add: new_events_def)

lemma sharp_only:
  assumes "\<forall>e \<in> set evs. is_sharp e"
  shows "StorageUpload p ok \<notin> set evs" and "StorageRemove ps ok \<notin> set evs"
    and "StorageSign p t ok \<notin> set evs" and "DbInsert ok \<notin> set evs"
    and "DbSelect \<notin> set evs" and "DbDelete ok \<notin> set evs"
  using assms by auto

lemma example_config:
  "PREVIEW_WIDTH example_penv = Num 300" "FULL_WIDTH example_penv = Num 2000"
  "PREVIEW_QUALITY example_penv = Num 40" "FULL_QUALITY example_penv = Num 75"
  "MAX_FILE_SIZE example_penv = Num 10485760"
  by code_simp+

lemma example_heights:
  "\<lfloor>fl (fl (3 / 40) * 3000) + 1 / 2\<rfloor> = 225"
  "\<lfloor>fl (fl (1 / 2) * 3000) + 1 / 2\<rfloor> = 1500"
  by code_simp+

lemma example_processImage_any:
  assumes "penv E = example_penv" and "sharp_metadata E = sharp_metadata example_env"
    and "sharp_webp E = sharp_webp example_env" and "uuidv4 E = uuidv4 example_env"
  shows "processImage E [7] w =
           (Inr example_processed,
            w\<lparr>trace := trace w @ [SharpMetadata, SharpEncode (Num 300) (Num 225),
                                    SharpEncode (Num 2000) (Num 1500)]\<rparr>)"
  by (simp add: processImage_def assms example_env_def Let_def or_number_def example_config
      example_heights log_def example_processed_def)

lemma example_valid:
  assumes "penv E = example_penv"
  shows "valid (validateImageFile (penv E) \<lparr>name = ''photo.jpg'', ftype = ''image/jpeg'', content = [7]\<rparr>)"
  by (simp add: assms validateImageFile_def ALLOWED_MIME_TYPES_def example_config size_of_def)

lemma example_key_ok: "penv E = example_penv \<Longrightarrow> key_ok E"
  by (simp add: key_ok_def example_penv_def)

lemma insert_down_run:
  "POST insert_down_env example_request empty_world =
     (Json 500 (Failure (Some (Text ''Failed to save image metadata''))),
      \<lparr>objects = [''user-1/previews/0f8fad5b.webp'' \<mapsto> [1, 2], ''user-1/full/0f8fad5b.webp'' \<mapsto> [3, 4, 5]],
       images = [],
       trace = [SharpMetadata, SharpEncode (Num 300) (Num 225), SharpEncode (Num 2000) (Num 1500),
                StorageUpload ''user-1/previews/0f8fad5b.webp'' True,
                StorageUpload ''user-1/full/0f8fad5b.webp'' True,
                DbInsert False]\<rparr>)"
proof -
  have e: "penv insert_down_env = example_penv"
    "sharp_metadata insert_down_env = sharp_metadata example_env"
    "sharp_webp insert_down_env = sharp_webp example_env"
    "uuidv4 insert_down_env = uuidv4 example_env"
    by (simp_all add: insert_down_env_def example_env_def)
  have f: "upload_error insert_down_env = (\<lambda>p. None)"
    "insert_error insert_down_env = Some ''connection refused''"
    by (simp_all add: insert_down_env_def example_env_def)
  have "POST insert_down_env example_request empty_world =
          (case POST_store insert_down_env
                  \<lparr>userId = ''user-1'', email = ''u@example.org'', role = ''user''\<rparr>
                  \<lparr>name = ''photo.jpg'', ftype = ''image/jpeg'', content = [7]\<rparr>
                  example_processed
                  (empty_world\<lparr>trace := trace empty_world @
                      [SharpMetadata, SharpEncode (Num 300) (Num 225),
                       SharpEncode (Num 2000) (Num 1500)]\<rparr>) of
             (Inl e, w2) \<Rightarrow> (catch_response, w2)
           | (Inr response, w2) \<Rightarrow> (response, w2))"
    by (simp add: POST_stages example_request_def example_valid[OF e(1), unfolded e(1)] e(1)
        example_processImage_any[OF e])
  also have "\<dots> = (Json 500 (Failure (Some (Text ''Failed to save image metadata''))),
      \<lparr>objects = [''user-1/previews/0f8fad5b.webp'' \<mapsto> [1, 2], ''user-1/full/0f8fad5b.webp'' \<mapsto> [3, 4, 5]],
       images = [],
       trace = [SharpMetadata, SharpEncode (Num 300) (Num 225), SharpEncode (Num 2000) (Num 1500),
                StorageUpload ''user-1/previews/0f8fad5b.webp'' True,
                StorageUpload ''user-1/full/0f8fad5b.webp'' True,
                DbInsert False]\<rparr>)"
    unfolding POST_store_ok[OF example_key_ok[OF e(1)]] POST_save_ok[OF example_key_ok[OF e(1)]] Let_def
    by (simp add: example_processed_def generateStoragePaths_def upload_world_def
        upload_succeeds_def f empty_world_def)
  finally show ?thesis .
qed

lemma example_start:
  assumes "penv E = example_penv" and "sharp_metadata E = sharp_metadata example_env"
    and "sharp_webp E = sharp_webp example_env" and "uuidv4 E = uuidv4 example_env"
  shows "POST E example_request empty_world =
          (case POST_store E
                  \<lparr>userId = ''user-1'', email = ''u@example.org'', role = ''user''\<rparr>
                  \<lparr>name = ''photo.jpg'', ftype = ''image/jpeg'', content = [7]\<rparr>
                  example_processed
                  (empty_world\<lparr>trace := trace empty_world @
                      [SharpMetadata, SharpEncode (Num 300) (Num 225),
                       SharpEncode (Num 2000) (Num 1500)]\<rparr>) of
             (Inl e, w2) \<Rightarrow> (catch_response, w2)
           | (Inr response, w2) \<Rightarrow> (response, w2))"
  by (simp add: POST_stages example_request_def example_valid[OF assms(1), unfolded assms(1)] assms(1)
      example_processImage_any[OF assms])

lemma full_upload_down_run:
  "POST full_upload_down_env example_request empty_world =
     (Json 500 (Failure (Some (Text ''Failed to upload image to storage''))),
      \<lparr>objects = [''user-1/previews/0f8fad5b.webp'' \<mapsto> [1, 2]],
       images = [],
       trace = [SharpMetadata, SharpEncode (Num 300) (Num 225), SharpEncode (Num 2000) (Num 1500),
                StorageUpload ''user-1/previews/0f8fad5b.webp'' True,
                StorageUpload ''user-1/full/0f8fad5b.webp'' False]\<rparr>)"
proof -
  have e: "penv full_upload_down_env = example_penv"
    "sharp_metadata full_upload_down_env = sharp_metadata example_env"
    "sharp_webp full_upload_down_env = sharp_webp example_env"
    "uuidv4 full_upload_down_env = uuidv4 example_env"
    by (simp_all add: full_upload_down_env_def example_env_def)
  have f: "upload_error full_upload_down_env
             = (\<lambda>p. if p = ''user-1/full/0f8fad5b.webp'' then Some ''Bad Gateway'' else None)"
    by (simp_all add: full_upload_down_env_def example_env_def)
  show ?thesis
    unfolding example_start[OF e] POST_store_ok[OF example_key_ok[OF e(1)]] Let_def
    by (simp add: example_processed_def generateStoragePaths_def upload_world_def
        upload_succeeds_def f empty_world_def)
qed

lemma sign_down_run:
  "POST sign_down_env example_request empty_world =
     (Json 200 (Success
        \<lparr>image_id = ''img-1'', user_id = ''user-1'',
         filename = ''0f8fad5b.webp'', original_filename = Some ''photo.jpg'',
         preview_path = ''user-1/previews/0f8fad5b.webp'',
         full_path = ''user-1/full/0f8fad5b.webp'', file_size_preview = Num 2,
         file_size_full = Num 3, mime_type = ''image/webp'', width = Num 2000,
         height = Num 1500, created_at = ''2024-01-01T00:00:00Z'',
         updated_at = ''2024-01-01T00:00:00Z'',
         preview_url = [], full_url = []\<rparr>
        ''Image uploaded successfully''),
      \<lparr>objects = [''user-1/previews/0f8fad5b.webp'' \<mapsto> [1, 2], ''user-1/full/0f8fad5b.webp'' \<mapsto> [3, 4, 5]],
       images = [\<lparr>image_id = ''img-1'', user_id = ''user-1'',
         filename = ''0f8fad5b.webp'', original_filename = Some ''photo.jpg'',
         preview_path = ''user-1/previews/0f8fad5b.webp'',
         full_path = ''user-1/full/0f8fad5b.webp'', file_size_preview = Num 2,
         file_size_full = Num 3, mime_type = ''image/webp'', width = Num 2000,
         height = Num 1500, created_at = ''2024-01-01T00:00:00Z'',
         updated_at = ''2024-01-01T00:00:00Z''\<rparr>],
       trace = [SharpMetadata, SharpEncode (Num 300) (Num 225), SharpEncode (Num 2000) (Num 1500),
                StorageUpload ''user-1/previews/0f8fad5b.webp'' True,
                StorageUpload ''user-1/full/0f8fad5b.webp'' True,
                DbInsert True,
                StorageSign ''user-1/previews/0f8fad5b.webp'' (Num 3600) False,
                StorageSign ''user-1/full/0f8fad5b.webp'' (Num 3600) False]\<rparr>)"
proof -
  have e: "penv sign_down_env = example_penv"
    "sharp_metadata sign_down_env = sharp_metadata example_env"
    "sharp_webp sign_down_env = sharp_webp example_env"
    "uuidv4 sign_down_env = uuidv4 example_env"
    by (simp_all add: sign_down_env_def example_env_def)
  have f: "upload_error sign_down_env = (\<lambda>p. None)"
    "insert_error sign_down_env = None"
    "new_id sign_down_env = ''img-1''" "now sign_down_env = ''2024-01-01T00:00:00Z''"
    "createSignedUrl sign_down_env = (\<lambda>p t. Inl ''Service Unavailable'')"
    by (simp_all add: sign_down_env_def example_env_def)
  show ?thesis
    unfolding example_start[OF e] POST_store_ok[OF example_key_ok[OF e(1)]]
      POST_save_ok[OF example_key_ok[OF e(1)]] POST_sign_ok[OF example_key_ok[OF e(1)]] Let_def
    by (simp add: example_processed_def generateStoragePaths_def upload_world_def
        upload_succeeds_def f empty_world_def image_row_def signed_or_empty_def
        Image.extend_def ImageWithUrls.fields_def)
qed

lemma empty_world_fields:
  "objects empty_world = Map.empty" "images empty_world = []" "trace empty_world = []"
  by (simp_all add: empty_world_def)

lemma extend_urls:
  "Image.truncate (Image.extend row (ImageWithUrls.fields a b)) = row"
  "preview_url (Image.extend row (ImageWithUrls.fields a b)) = a"
  "full_url (Image.extend row (ImageWithUrls.fields a b)) = b"
  by (simp_all add: Image.defs ImageWithUrls.defs)

lemma example_run:
  "POST example_env example_request empty_world =
     (Json 200 (Success
        \<lparr>image_id = ''img-1'', user_id = ''user-1'',
         filename = ''0f8fad5b.webp'', original_filename = Some ''photo.jpg'',
         preview_path = ''user-1/previews/0f8fad5b.webp'',
         full_path = ''user-1/full/0f8fad5b.webp'', file_size_preview = Num 2,
         file_size_full = Num 3, mime_type = ''image/webp'', width = Num 2000,
         height = Num 1500, created_at = ''2024-01-01T00:00:00Z'',
         updated_at = ''2024-01-01T00:00:00Z'',
         preview_url = ''https://signed/user-1/previews/0f8fad5b.webp'',
         full_url = ''https://signed/user-1/full/0f8fad5b.webp''\<rparr>
        ''Image uploaded successfully''),
      \<lparr>objects = [''user-1/previews/0f8fad5b.webp'' \<mapsto> [1, 2], ''user-1/full/0f8fad5b.webp'' \<mapsto> [3, 4, 5]],
       images = [\<lparr>image_id = ''img-1'', user_id = ''user-1'',
         filename = ''0f8fad5b.webp'', original_filename = Some ''photo.jpg'',
         preview_path = ''user-1/previews/0f8fad5b.webp'',
         full_path = ''user-1/full/0f8fad5b.webp'', file_size_preview = Num 2,
         file_size_full = Num 3, mime_type = ''image/webp'', width = Num 2000,
         height = Num 1500, created_at = ''2024-01-01T00:00:00Z'',
         updated_at = ''2024-01-01T00:00:00Z''\<rparr>],
       trace = [SharpMetadata, SharpEncode (Num 300) (Num 225), SharpEncode (Num 2000) (Num 1500),
                StorageUpload ''user-1/previews/0f8fad5b.webp'' True,
                StorageUpload ''user-1/full/0f8fad5b.webp'' True,
                DbInsert True,
                StorageSign ''user-1/previews/0f8fad5b.webp'' (Num 3600) True,
                StorageSign ''user-1/full/0f8fad5b.webp'' (Num 3600) True]\<rparr>)"
proof -
  have e: "penv example_env = example_penv"
    "sharp_metadata example_env = sharp_metadata example_env"
    "sharp_webp example_env = sharp_webp example_env"
    "uuidv4 example_env = uuidv4 example_env"
    by (simp_all add: example_env_def)
  have f: "upload_error example_env = (\<lambda>p. None)"
    "insert_error example_env = None"
    "new_id example_env = ''img-1''" "now example_env = ''2024-01-01T00:00:00Z''"
    "createSignedUrl example_env = (\<lambda>p t. Inr (''https://signed/'' @ p))"
    by (simp_all add: example_env_def)
  show ?thesis
    unfolding example_start[OF e] POST_store_ok[OF example_key_ok[OF e(1)]]
      POST_save_ok[OF example_key_ok[OF e(1)]] POST_sign_ok[OF example_key_ok[OF e(1)]] Let_def
    by (simp add: example_processed_def generateStoragePaths_def upload_world_def
        upload_succeeds_def f empty_world_def image_row_def signed_or_empty_def
        Image.extend_def ImageWithUrls.fields_def)
qed

lemma getSignedUrl_cases:
  "getSignedUrl env path expiresIn w =
     (if key_ok env
      then (case createSignedUrl env path (case expiresIn of None \<Rightarrow> Num 3600 | Some n \<Rightarrow> n) of
              Inl msg \<Rightarrow> (Inr None,
                 w\<lparr>trace := trace w @ [StorageSign path (case expiresIn of None \<Rightarrow> Num 3600 | Some n \<Rightarrow> n) False]\<rparr>)
            | Inr url \<Rightarrow> (Inr (Some url),
                 w\<lparr>trace := trace w @ [StorageSign path (case expiresIn of None \<Rightarrow> Num 3600 | Some n \<Rightarrow> n) True]\<rparr>))
      else (Inl (Error ''Missing SUPABASE_SERVICE_ROLE_KEY environment variable''), w))"
proof (cases "key_ok env")
  case True
  then show ?thesis
    by (simp add: getSignedUrl_def getSupabaseAdmin_ok await_def return_def storage_sign_def log_def
        Let_def split: sum.splits)
next
  case False
  then show ?thesis
    by (simp add: getSignedUrl_def getSupabaseAdmin_missing await_def throw_def Let_def)
qed



lemma POST_invalid_file:
  assumes "formData_file request = Inr (Some ufile)"
    and "\<not> valid (validateImageFile (penv env) ufile)"
  shows "snd (POST env request w) = w"
    and "status (fst (POST env request w)) \<in> {400, 401, 429}"
    and "currentUser request \<noteq> None \<Longrightarrow> rl_success (uploadRateLimit request) \<Longrightarrow>
           fst (POST env request w) = Json 400 (Failure (error (validateImageFile (penv env) ufile)))"
  using assms by (auto simp: POST_stages split: option.splits)

lemma parseInt10_examples:
  "parseInt10 '' 42px'' = Num 42" "parseInt10 ''-7'' = Num (- 7)" "parseInt10 ''px'' = NaN"
  "parseInt10 [CHR 0xC2, CHR 0xA0, CHR ''1''] = Num 1"
  "parseInt10 [CHR 0xEF, CHR 0xBB, CHR 0xBF, CHR 0x09, CHR ''+'', CHR ''3'', CHR ''0'', CHR ''0''] = Num 300"
  by code_simp+

lemma default_max_file_size:
  "js_mul (js_mul (parseInt10 ''10'') (Num 1024)) (Num 1024) = Num 10485760"
  by code_simp

lemma validateImageFile_valid:
  "valid (validateImageFile penv0 ufile)
     \<longleftrightarrow> ftype ufile \<in> set ALLOWED_MIME_TYPES \<and> \<not> js_gt (size_of ufile) (MAX_FILE_SIZE penv0)"
  by (simp add: validateImageFile_def)

lemma validateImageFile_error:
  "\<not> valid (validateImageFile penv0 ufile) \<Longrightarrow> error (validateImageFile penv0 ufile) \<noteq> None"
  by (simp add: validateImageFile_def split: if_splits)


lemma deleteImage_cases:
  "deleteImage env imageId uid w =
     (if \<not> key_ok env
      then (Inl (Error ''Missing SUPABASE_SERVICE_ROLE_KEY environment variable''), w)
      else if select_error env \<noteq> None
              \<or> (\<forall>row. filter (\<lambda>row. image_id row = imageId \<and> user_id row = uid) (images w) \<noteq> [row])
      then (Inr None, w\<lparr>trace := trace w @ [DbSelect]\<rparr>)
      else if delete_error env \<noteq> None
      then (Inr None, w\<lparr>trace := trace w @ [DbSelect, DbDelete False]\<rparr>)
      else (Inr (Some \<lparr>previewPath = preview_path (hd (filter (\<lambda>row. image_id row = imageId \<and> user_id row = uid) (images w))),
                        fullPath = full_path (hd (filter (\<lambda>row. image_id row = imageId \<and> user_id row = uid) (images w)))\<rparr>),
            w\<lparr>images := filter (\<lambda>row. \<not> (image_id row = imageId \<and> user_id row = uid)) (images w),
              trace := trace w @ [DbSelect, DbDelete True]\<rparr>))"
proof (cases "key_ok env")
  case False
  then show ?thesis
    by (simp add: deleteImage_def getSupabaseAdmin_missing await_def throw_def)
next
  case True
  then show ?thesis
    by (auto simp: deleteImage_def getSupabaseAdmin_ok await_def return_def
        images_select_single_def images_delete_def log_def split: list.splits)
qed

section \<open>The storage path planner\<close>

text \<open>
  C6. The path planner maps \<open>(ownerId, filename)\<close> to
  \<open>ownerId/previews/filename\<close> and \<open>ownerId/full/filename\<close>. Equal inputs give equal
  paths; for one owner, two different filenames give four pairwise different paths; and
  the preview and full paths of one call differ.
\<close>

theorem generateStoragePaths_planner:
  "previewPath (generateStoragePaths ownerId fname) = ownerId @ ''/previews/'' @ fname
   \<and> fullPath (generateStoragePaths ownerId fname) = ownerId @ ''/full/'' @ fname
   \<and> (ownerId = ownerId' \<and> fname = fname'
        \<longrightarrow> generateStoragePaths ownerId fname = generateStoragePaths ownerId' fname')
   \<and> (fname \<noteq> fname'
        \<longrightarrow> previewPath (generateStoragePaths ownerId fname)
              \<noteq> previewPath (generateStoragePaths ownerId fname')
          \<and> fullPath (generateStoragePaths ownerId fname)
              \<noteq> fullPath (generateStoragePaths ownerId fname')
          \<and> previewPath (generateStoragePaths ownerId fname)
              \<noteq> fullPath (generateStoragePaths ownerId fname')
          \<and> fullPath (generateStoragePaths ownerId fname)
              \<noteq> previewPath (generateStoragePaths ownerId fname'))
   \<and> previewPath (generateStoragePaths ownerId fname)
        \<noteq> fullPath (generateStoragePaths ownerId fname)"
  by (simp add: generateStoragePaths_def)

theorem generateStoragePaths_planner_witness:
  "generateStoragePaths ''u1'' ''a.webp''
     = \<lparr>previewPath = ''u1/previews/a.webp'', fullPath = ''u1/full/a.webp''\<rparr>
   \<and> previewPath (generateStoragePaths ''u1'' ''a.webp'')
        \<noteq> previewPath (generateStoragePaths ''u1'' ''b.webp'')
   \<and> fullPath (generateStoragePaths ''u1'' ''a.webp'')
        \<noteq> fullPath (generateStoragePaths ''u1'' ''b.webp'')"
  using generateStoragePaths_planner [of "''u1''" "''a.webp''" "''u1''" "''a.webp''"]
    generateStoragePaths_planner [of "''u1''" "''a.webp''" "''u1''" "''b.webp''"]
  by (simp add: generateStoragePaths_def)

section \<open>The derivative generator\<close>




text \<open>
  Double rounding at an exact tie: \<open>300 * 159 / 424\<close> is exactly \<open>112.5\<close>, but the
  product of the two doubles lies just below it, so the recorded height is 112 where the
  exact quotient rounds half up to 113. Both are nearest integers.
\<close>

lemma scaled_height_tie:
  "Math_round (js_mul (js_div (Num 300) (Num 424)) (Num 159)) = Num 112"
  "\<lfloor>(300 * 159 / 424 :: rat) + 1 / 2\<rfloor> = 113"
  by code_simp+

section \<open>Failure after storage: no compensating deletion\<close>

text \<open>
  C1 (as the code has it). The upload handler has no compensating deletion. In every run
  in which the metadata insert fails (both uploads then have succeeded), the handler
  answers 500 \<open>Failed to save image metadata\<close>, adds no row to \<open>images\<close>, sends no
  \<open>remove\<close> request to the bucket at all, and the two objects it has just uploaded
  (at two different paths that were free before) are still in the bucket when it returns.
\<close>

theorem POST_insert_failure_no_cleanup:
  assumes run: "POST env request w = (response, w')"
    and failed: "DbInsert False \<in> set (new_events w w')"
  shows "response = Json 500 (Failure (Some (Text ''Failed to save image metadata'')))
       \<and> images w' = images w
       \<and> (\<forall>paths ok. StorageRemove paths ok \<notin> set (new_events w w'))
       \<and> (\<exists>pp fp. pp \<noteq> fp
             \<and> StorageUpload pp True \<in> set (new_events w w')
             \<and> StorageUpload fp True \<in> set (new_events w w')
             \<and> objects w pp = None \<and> objects w fp = None
             \<and> objects w' pp \<noteq> None \<and> objects w' fp \<noteq> None)"
  using run
proof (cases rule: POST_runs)
  case (quiet evsP)
  then show ?thesis using failed sharp_only[of evsP] by (simp add: new_events_append)
next
  case (upload_failed evsP pp fp pb fb b1 b2)
  then show ?thesis using failed sharp_only[of evsP]
    by (simp add: new_events_append[OF upload_failed(5)])
next
  case (insert_failed evsP pp fp pb fb)
  have "pp \<noteq> fp
             \<and> StorageUpload pp True \<in> set (new_events w w')
             \<and> StorageUpload fp True \<in> set (new_events w w')
             \<and> objects w pp = None \<and> objects w fp = None
             \<and> objects w' pp \<noteq> None \<and> objects w' fp \<noteq> None"
    using insert_failed by (simp add: new_events_append[OF insert_failed(4)])
  then have "\<exists>pp fp. pp \<noteq> fp
             \<and> StorageUpload pp True \<in> set (new_events w w')
             \<and> StorageUpload fp True \<in> set (new_events w w')
             \<and> objects w pp = None \<and> objects w fp = None
             \<and> objects w' pp \<noteq> None \<and> objects w' fp \<noteq> None"
    by (intro exI)
  then show ?thesis using insert_failed sharp_only[of evsP]
    by (simp add: new_events_append[OF insert_failed(4)])
next
  case (signed evsP pp fp pb fb row)
  then show ?thesis using failed sharp_only[of evsP]
    by (simp add: new_events_append[OF signed(6)])
qed

theorem POST_insert_failure_no_cleanup_witness:
  "DbInsert False \<in> set (new_events empty_world (snd (POST insert_down_env example_request empty_world)))
   \<and> fst (POST insert_down_env example_request empty_world)
       = Json 500 (Failure (Some (Text ''Failed to save image metadata'')))
   \<and> images (snd (POST insert_down_env example_request empty_world)) = images empty_world
   \<and> StorageRemove [''user-1/previews/0f8fad5b.webp'', ''user-1/full/0f8fad5b.webp''] True
        \<notin> set (new_events empty_world (snd (POST insert_down_env example_request empty_world)))"
proof -
  have r: "POST insert_down_env example_request empty_world
             = (fst (POST insert_down_env example_request empty_world),
                snd (POST insert_down_env example_request empty_world))"
    by simp
  have f: "DbInsert False
             \<in> set (new_events empty_world (snd (POST insert_down_env example_request empty_world)))"
    by (simp add: insert_down_run new_events_def empty_world_fields)
  from POST_insert_failure_no_cleanup [OF r f] f show ?thesis by (simp add: insert_down_run new_events_def empty_world_fields)
qed

text \<open>
  The claim as stated (both just-uploaded objects are deleted before the metadata error
  is returned) fails on this run: the database refuses the insert after both uploads
  succeeded; the run ends with the \<open>DbInsert False\<close> event, no \<open>StorageRemove\<close> was
  issued, and both objects are in the bucket.
\<close>

theorem POST_insert_failure_counterexample:
  "fst (POST insert_down_env example_request empty_world)
     = Json 500 (Failure (Some (Text ''Failed to save image metadata'')))
   \<and> trace (snd (POST insert_down_env example_request empty_world))
     = [SharpMetadata, SharpEncode (Num 300) (Num 225), SharpEncode (Num 2000) (Num 1500),
        StorageUpload ''user-1/previews/0f8fad5b.webp'' True,
        StorageUpload ''user-1/full/0f8fad5b.webp'' True,
        DbInsert False]
   \<and> objects (snd (POST insert_down_env example_request empty_world)) ''user-1/previews/0f8fad5b.webp''
     = Some [1, 2]
   \<and> objects (snd (POST insert_down_env example_request empty_world)) ''user-1/full/0f8fad5b.webp''
     = Some [3, 4, 5]"
  by (simp add: insert_down_run)

text \<open>
  C2 (as the code has it). In every run in which one derivative upload succeeds (at path
  \<open>p\<close>) and the other is reported failed (at path \<open>q\<close>), the handler answers 500
  \<open>Failed to upload image to storage\<close>, never reaches the metadata insert, so no row is
  added, and sends no \<open>remove\<close> request: the object uploaded at \<open>p\<close> stays in the
  bucket.
\<close>

theorem POST_partial_upload_failure_no_cleanup:
  assumes run: "POST env request w = (response, w')"
    and ok: "StorageUpload p True \<in> set (new_events w w')"
    and failed: "StorageUpload q False \<in> set (new_events w w')"
  shows "response = Json 500 (Failure (Some (Text ''Failed to upload image to storage'')))
       \<and> images w' = images w
       \<and> (\<forall>ok'. DbInsert ok' \<notin> set (new_events w w'))
       \<and> (\<forall>paths ok'. StorageRemove paths ok' \<notin> set (new_events w w'))
       \<and> p \<noteq> q \<and> objects w p = None \<and> objects w' p \<noteq> None"
  using run
proof (cases rule: POST_runs)
  case (quiet evsP)
  then show ?thesis using ok sharp_only[of evsP] by (simp add: new_events_append)
next
  case (upload_failed evsP pp fp pb fb b1 b2)
  note n = new_events_append[OF upload_failed(5)]
  have "(p = pp \<and> b1) \<or> (p = fp \<and> b2)" using ok sharp_only(1)[OF upload_failed(1)] by (auto simp: n)
  moreover have "(q = pp \<and> \<not> b1) \<or> (q = fp \<and> \<not> b2)"
    using failed sharp_only(1)[OF upload_failed(1)] by (auto simp: n)
  ultimately have "p \<noteq> q \<and> objects w p = None \<and> objects w' p \<noteq> None"
    using upload_failed(2,3,7,8) by auto
  then show ?thesis using upload_failed(4,6) sharp_only[OF upload_failed(1)] by (simp add: n)
next
  case (insert_failed evsP pp fp pb fb)
  then show ?thesis using failed sharp_only[of evsP]
    by (simp add: new_events_append[OF insert_failed(4)])
next
  case (signed evsP pp fp pb fb row)
  then show ?thesis using failed sharp_only[of evsP]
    by (simp add: new_events_append[OF signed(6)])
qed

theorem POST_partial_upload_failure_no_cleanup_witness:
  "StorageUpload ''user-1/previews/0f8fad5b.webp'' True
     \<in> set (new_events empty_world (snd (POST full_upload_down_env example_request empty_world)))
   \<and> StorageUpload ''user-1/full/0f8fad5b.webp'' False
     \<in> set (new_events empty_world (snd (POST full_upload_down_env example_request empty_world)))
   \<and> fst (POST full_upload_down_env example_request empty_world)
       = Json 500 (Failure (Some (Text ''Failed to upload image to storage'')))
   \<and> images (snd (POST full_upload_down_env example_request empty_world)) = images empty_world
   \<and> objects (snd (POST full_upload_down_env example_request empty_world))
        ''user-1/previews/0f8fad5b.webp'' \<noteq> None"
proof -
  have r: "POST full_upload_down_env example_request empty_world
             = (fst (POST full_upload_down_env example_request empty_world),
                snd (POST full_upload_down_env example_request empty_world))"
    by simp
  have a: "StorageUpload ''user-1/previews/0f8fad5b.webp'' True
     \<in> set (new_events empty_world (snd (POST full_upload_down_env example_request empty_world)))"
    and b: "StorageUpload ''user-1/full/0f8fad5b.webp'' False
     \<in> set (new_events empty_world (snd (POST full_upload_down_env example_request empty_world)))"
    by (simp_all add: full_upload_down_run new_events_def empty_world_fields)
  from POST_partial_upload_failure_no_cleanup [OF r a b] a b show ?thesis by (simp add: empty_world_fields)
qed

text \<open>
  The claim as stated (the sibling object whose upload succeeded is deleted before the
  error is returned) fails on this run: the bucket refuses the full derivative after the
  preview was stored; the run ends with the failed upload, no \<open>StorageRemove\<close> was
  issued, and the preview object is in the bucket.
\<close>

theorem POST_partial_upload_failure_counterexample:
  "fst (POST full_upload_down_env example_request empty_world)
     = Json 500 (Failure (Some (Text ''Failed to upload image to storage'')))
   \<and> trace (snd (POST full_upload_down_env example_request empty_world))
     = [SharpMetadata, SharpEncode (Num 300) (Num 225), SharpEncode (Num 2000) (Num 1500),
        StorageUpload ''user-1/previews/0f8fad5b.webp'' True,
        StorageUpload ''user-1/full/0f8fad5b.webp'' False]
   \<and> objects (snd (POST full_upload_down_env example_request empty_world)) ''user-1/previews/0f8fad5b.webp''
     = Some [1, 2]"
  by (simp add: full_upload_down_run)

section \<open>The record is created after its objects\<close>

text \<open>
  C5. In every run of the handler, an insert into \<open>images\<close> (successful or refused) is
  issued only directly after both derivative uploads have succeeded, at two different
  paths that were free before, and nothing is inserted before or after it. A run adds at
  most one row, and only with a successful insert; both paths of that row were uploaded
  successfully earlier in the same run and hold an object when the handler returns.
\<close>

theorem POST_record_only_after_uploads:
  assumes run: "POST env request w = (response, w')"
  shows "(\<forall>ok. DbInsert ok \<in> set (new_events w w') \<longrightarrow>
            (\<exists>before pp fp after.
               new_events w w'
                 = before @ [StorageUpload pp True, StorageUpload fp True, DbInsert ok] @ after
               \<and> pp \<noteq> fp
               \<and> (\<forall>ok'. DbInsert ok' \<notin> set before) \<and> (\<forall>ok'. DbInsert ok' \<notin> set after)
               \<and> objects w pp = None \<and> objects w fp = None
               \<and> objects w' pp \<noteq> None \<and> objects w' fp \<noteq> None))
       \<and> (images w' = images w
            \<or> (\<exists>row. images w' = images w @ [row]
                  \<and> DbInsert True \<in> set (new_events w w')
                  \<and> StorageUpload (preview_path row) True \<in> set (new_events w w')
                  \<and> StorageUpload (full_path row) True \<in> set (new_events w w')
                  \<and> objects w' (preview_path row) \<noteq> None
                  \<and> objects w' (full_path row) \<noteq> None))"
  using run
proof (cases rule: POST_runs)
  case (quiet evsP)
  then show ?thesis using sharp_only[of evsP] by (simp add: new_events_append)
next
  case (upload_failed evsP pp fp pb fb b1 b2)
  then show ?thesis using sharp_only[of evsP]
    by (simp add: new_events_append[OF upload_failed(5)])
next
  case (insert_failed evsP pp fp pb fb)
  note n = new_events_append[OF insert_failed(4)]
  have "new_events w w' = evsP @ [StorageUpload pp True, StorageUpload fp True, DbInsert False] @ []
               \<and> pp \<noteq> fp
               \<and> (\<forall>ok'. DbInsert ok' \<notin> set evsP) \<and> (\<forall>ok'. DbInsert ok' \<notin> set ([]::event list))
               \<and> objects w pp = None \<and> objects w fp = None
               \<and> objects w' pp \<noteq> None \<and> objects w' fp \<noteq> None"
    using insert_failed sharp_only(4)[OF insert_failed(1)] by (simp add: n)
  then have "\<exists>before pp fp after.
               new_events w w'
                 = before @ [StorageUpload pp True, StorageUpload fp True, DbInsert False] @ after
               \<and> pp \<noteq> fp
               \<and> (\<forall>ok'. DbInsert ok' \<notin> set before) \<and> (\<forall>ok'. DbInsert ok' \<notin> set after)
               \<and> objects w pp = None \<and> objects w fp = None
               \<and> objects w' pp \<noteq> None \<and> objects w' fp \<noteq> None"
    by (intro exI)
  moreover have "\<forall>ok. DbInsert ok \<in> set (new_events w w') \<longrightarrow> ok = False"
    using sharp_only(4)[OF insert_failed(1)] by (simp add: n)
  ultimately show ?thesis using insert_failed(5) by blast
next
  case (signed evsP pp fp pb fb row)
  note n = new_events_append[OF signed(6)]
  let ?after = "[StorageSign pp (Num 3600) (\<not> isl (createSignedUrl env pp (Num 3600))),
                 StorageSign fp (Num 3600) (\<not> isl (createSignedUrl env fp (Num 3600)))]"
  have "new_events w w' = evsP @ [StorageUpload pp True, StorageUpload fp True, DbInsert True] @ ?after
               \<and> pp \<noteq> fp
               \<and> (\<forall>ok'. DbInsert ok' \<notin> set evsP) \<and> (\<forall>ok'. DbInsert ok' \<notin> set ?after)
               \<and> objects w pp = None \<and> objects w fp = None
               \<and> objects w' pp \<noteq> None \<and> objects w' fp \<noteq> None"
    using signed sharp_only(4)[OF signed(1)] by (simp add: n)
  then have 1: "\<exists>before pp fp after.
               new_events w w'
                 = before @ [StorageUpload pp True, StorageUpload fp True, DbInsert True] @ after
               \<and> pp \<noteq> fp
               \<and> (\<forall>ok'. DbInsert ok' \<notin> set before) \<and> (\<forall>ok'. DbInsert ok' \<notin> set after)
               \<and> objects w pp = None \<and> objects w fp = None
               \<and> objects w' pp \<noteq> None \<and> objects w' fp \<noteq> None"
    by (intro exI)
  have 2: "\<forall>ok. DbInsert ok \<in> set (new_events w w') \<longrightarrow> ok = True"
    using sharp_only(4)[OF signed(1)] by (simp add: n)
  have "images w' = images w @ [row]
                  \<and> DbInsert True \<in> set (new_events w w')
                  \<and> StorageUpload (preview_path row) True \<in> set (new_events w w')
                  \<and> StorageUpload (full_path row) True \<in> set (new_events w w')
                  \<and> objects w' (preview_path row) \<noteq> None
                  \<and> objects w' (full_path row) \<noteq> None"
    using signed by (simp add: n)
  then have 3: "\<exists>row. images w' = images w @ [row]
                  \<and> DbInsert True \<in> set (new_events w w')
                  \<and> StorageUpload (preview_path row) True \<in> set (new_events w w')
                  \<and> StorageUpload (full_path row) True \<in> set (new_events w w')
                  \<and> objects w' (preview_path row) \<noteq> None
                  \<and> objects w' (full_path row) \<noteq> None"
    by (intro exI)
  show ?thesis using 1 2 3 by blast
qed

theorem POST_record_only_after_uploads_witness:
  "new_events empty_world (snd (POST example_env example_request empty_world))
     = [SharpMetadata, SharpEncode (Num 300) (Num 225), SharpEncode (Num 2000) (Num 1500)]
       @ [StorageUpload ''user-1/previews/0f8fad5b.webp'' True,
          StorageUpload ''user-1/full/0f8fad5b.webp'' True, DbInsert True]
       @ [StorageSign ''user-1/previews/0f8fad5b.webp'' (Num 3600) True,
          StorageSign ''user-1/full/0f8fad5b.webp'' (Num 3600) True]
   \<and> map preview_path (images (snd (POST example_env example_request empty_world)))
     = [''user-1/previews/0f8fad5b.webp'']
   \<and> objects (snd (POST example_env example_request empty_world)) ''user-1/previews/0f8fad5b.webp''
     \<noteq> None
   \<and> objects (snd (POST example_env example_request empty_world)) ''user-1/full/0f8fad5b.webp''
     \<noteq> None"
proof -
  have r: "POST example_env example_request empty_world
             = (fst (POST example_env example_request empty_world),
                snd (POST example_env example_request empty_world))"
    by simp
  from POST_record_only_after_uploads [OF r] show ?thesis
    by (simp add: example_run new_events_def empty_world_fields)
qed

section \<open>Signed URLs\<close>

text \<open>
  C8. Once the row has been inserted, the handler answers 200 with that row, whatever the
  signing service answers: a URL that could not be signed becomes the empty string. Both
  URLs are requested with the default expiry of 3600 seconds. \<open>getSignedUrl\<close> itself
  returns \<open>null\<close> when the storage service reports an error and the URL when it does not,
  with expiry 3600 when none is given; it returns rather than throws whenever the admin
  client can be built.
\<close>

theorem POST_signing_failure_not_fatal:
  "(POST env request w = (response, w') \<and> DbInsert True \<in> set (new_events w w') \<longrightarrow>
      (\<exists>row data. images w' = images w @ [row]
         \<and> response = Json 200 (Success data ''Image uploaded successfully'')
         \<and> Image.truncate data = row
         \<and> preview_url data
             = (case createSignedUrl env (preview_path row) (Num 3600) of Inl msg \<Rightarrow> [] | Inr url \<Rightarrow> url)
         \<and> full_url data
             = (case createSignedUrl env (full_path row) (Num 3600) of Inl msg \<Rightarrow> [] | Inr url \<Rightarrow> url)
         \<and> StorageSign (preview_path row) (Num 3600)
              (\<not> isl (createSignedUrl env (preview_path row) (Num 3600))) \<in> set (new_events w w')
         \<and> StorageSign (full_path row) (Num 3600)
              (\<not> isl (createSignedUrl env (full_path row) (Num 3600))) \<in> set (new_events w w')))
   \<and> (getSignedUrl env path expiresIn w0 = (r, w1) \<longrightarrow>
        (key_ok env \<longrightarrow> (\<exists>u. r = Inr u))
      \<and> (\<forall>t. StorageSign path t False \<in> set (new_events w0 w1) \<longrightarrow> r = Inr None)
      \<and> (\<forall>t. StorageSign path t True \<in> set (new_events w0 w1) \<longrightarrow> (\<exists>url. r = Inr (Some url)))
      \<and> (\<forall>t ok. expiresIn = None \<and> StorageSign path t ok \<in> set (new_events w0 w1) \<longrightarrow> t = Num 3600))"
proof (intro conjI impI)
  assume a: "POST env request w = (response, w') \<and> DbInsert True \<in> set (new_events w w')"
  then have run: "POST env request w = (response, w')"
    and ins: "DbInsert True \<in> set (new_events w w')" by simp_all
  from run show "\<exists>row data. images w' = images w @ [row]
         \<and> response = Json 200 (Success data ''Image uploaded successfully'')
         \<and> Image.truncate data = row
         \<and> preview_url data
             = (case createSignedUrl env (preview_path row) (Num 3600) of Inl msg \<Rightarrow> [] | Inr url \<Rightarrow> url)
         \<and> full_url data
             = (case createSignedUrl env (full_path row) (Num 3600) of Inl msg \<Rightarrow> [] | Inr url \<Rightarrow> url)
         \<and> StorageSign (preview_path row) (Num 3600)
              (\<not> isl (createSignedUrl env (preview_path row) (Num 3600))) \<in> set (new_events w w')
         \<and> StorageSign (full_path row) (Num 3600)
              (\<not> isl (createSignedUrl env (full_path row) (Num 3600))) \<in> set (new_events w w')"
  proof (cases rule: POST_runs)
    case (quiet evsP)
    then show ?thesis using ins sharp_only[of evsP] by (simp add: new_events_append)
  next
    case (upload_failed evsP pp fp pb fb b1 b2)
    then show ?thesis using ins sharp_only[of evsP]
      by (simp add: new_events_append[OF upload_failed(5)])
  next
    case (insert_failed evsP pp fp pb fb)
    then show ?thesis using ins sharp_only[of evsP]
      by (simp add: new_events_append[OF insert_failed(4)])
  next
    case (signed evsP pp fp pb fb row)
    note n = new_events_append[OF signed(6)]
    let ?data = "Image.extend row
                   (ImageWithUrls.fields (signed_or_empty env pp) (signed_or_empty env fp))"
    have "images w' = images w @ [row]
         \<and> response = Json 200 (Success ?data ''Image uploaded successfully'')
         \<and> Image.truncate ?data = row
         \<and> preview_url ?data
             = (case createSignedUrl env (preview_path row) (Num 3600) of Inl msg \<Rightarrow> [] | Inr url \<Rightarrow> url)
         \<and> full_url ?data
             = (case createSignedUrl env (full_path row) (Num 3600) of Inl msg \<Rightarrow> [] | Inr url \<Rightarrow> url)
         \<and> StorageSign (preview_path row) (Num 3600)
              (\<not> isl (createSignedUrl env (preview_path row) (Num 3600))) \<in> set (new_events w w')
         \<and> StorageSign (full_path row) (Num 3600)
              (\<not> isl (createSignedUrl env (full_path row) (Num 3600))) \<in> set (new_events w w')"
      using signed(3,4,5,7) by (simp add: n extend_urls signed_or_empty_def)
    then show ?thesis by (intro exI)
  qed
next
  assume "getSignedUrl env path expiresIn w0 = (r, w1)" and "key_ok env"
  then show "\<exists>u. r = Inr u"
    by (auto simp: getSignedUrl_cases split: sum.splits)
next
  assume "getSignedUrl env path expiresIn w0 = (r, w1)"
  then show "\<forall>t. StorageSign path t False \<in> set (new_events w0 w1) \<longrightarrow> r = Inr None"
    by (auto simp: getSignedUrl_cases new_events_def split: sum.splits if_splits)
next
  assume "getSignedUrl env path expiresIn w0 = (r, w1)"
  then show "\<forall>t. StorageSign path t True \<in> set (new_events w0 w1) \<longrightarrow> (\<exists>url. r = Inr (Some url))"
    by (auto simp: getSignedUrl_cases new_events_def split: sum.splits if_splits)
next
  assume "getSignedUrl env path expiresIn w0 = (r, w1)"
  then show "\<forall>t ok. expiresIn = None \<and> StorageSign path t ok \<in> set (new_events w0 w1) \<longrightarrow> t = Num 3600"
    by (auto simp: getSignedUrl_cases new_events_def split: sum.splits if_splits)
qed

theorem POST_signing_failure_not_fatal_witness:
  "DbInsert True \<in> set (new_events empty_world (snd (POST sign_down_env example_request empty_world)))
   \<and> createSignedUrl sign_down_env ''user-1/previews/0f8fad5b.webp'' (Num 3600) = Inl ''Service Unavailable''
   \<and> status (fst (POST sign_down_env example_request empty_world)) = 200
   \<and> map preview_path (images (snd (POST sign_down_env example_request empty_world)))
       = [''user-1/previews/0f8fad5b.webp'']
   \<and> key_ok sign_down_env
   \<and> fst (getSignedUrl sign_down_env ''user-1/previews/0f8fad5b.webp'' None
            (snd (POST sign_down_env example_request empty_world))) = Inr None"
proof -
  let ?w = "snd (POST sign_down_env example_request empty_world)"
  let ?g = "getSignedUrl sign_down_env ''user-1/previews/0f8fad5b.webp'' None ?w"
  have r: "POST sign_down_env example_request empty_world
             = (fst (POST sign_down_env example_request empty_world), ?w)"
    by simp
  have i: "DbInsert True \<in> set (new_events empty_world ?w)"
    by (simp add: sign_down_run new_events_def empty_world_fields)
  have g: "?g = (fst ?g, snd ?g)" by simp
  have k: "key_ok sign_down_env"
    by (rule example_key_ok) (simp add: sign_down_env_def example_env_def)
  have c: "createSignedUrl sign_down_env ''user-1/previews/0f8fad5b.webp'' (Num 3600) = Inl ''Service Unavailable''"
    by (simp add: sign_down_env_def)
  from POST_signing_failure_not_fatal
         [of sign_down_env example_request empty_world
             "fst (POST sign_down_env example_request empty_world)" ?w
             "''user-1/previews/0f8fad5b.webp''" None ?w "fst ?g" "snd ?g"]
    r i g k c
  show ?thesis
    by (simp add: sign_down_run getSignedUrl_cases)
qed

section \<open>Undecodable input\<close>




section \<open>Validation comes first\<close>

text \<open>
  C3. A file is valid exactly when its MIME type is one of the six allowed types and its
  size does not exceed \<open>MAX_FILE_SIZE\<close>, which is 10 MiB when \<open>MAX_FILE_SIZE_MB\<close> is
  unset. At a maximum of \<open>m\<close> bytes a file of \<open>m\<close> bytes of an allowed type is valid
  and one of \<open>m + 1\<close> bytes is not. For an invalid file the handler leaves the world as
  it found it (no decoding, no bucket or database request) and, for an authenticated, not
  rate-limited request, answers 400 with the validation message.
\<close>

theorem POST_validation_first:
  "(valid (validateImageFile (penv env) ufile)
      \<longleftrightarrow> ftype ufile \<in> {''image/jpeg'', ''image/png'', ''image/webp'', ''image/gif'',
                           ''image/heic'', ''image/heif''}
          \<and> \<not> js_gt (size_of ufile) (MAX_FILE_SIZE (penv env)))
   \<and> (penv env ''MAX_FILE_SIZE_MB'' = None \<longrightarrow> MAX_FILE_SIZE (penv env) = Num (10 * 1024 * 1024))
   \<and> (MAX_FILE_SIZE (penv env) = Num (of_nat m) \<and> ftype ufile \<in> set ALLOWED_MIME_TYPES \<longrightarrow>
        (length (content ufile) = m \<longrightarrow> valid (validateImageFile (penv env) ufile))
      \<and> (length (content ufile) = m + 1 \<longrightarrow> \<not> valid (validateImageFile (penv env) ufile)))
   \<and> (formData_file request = Inr (Some ufile) \<and> \<not> valid (validateImageFile (penv env) ufile) \<longrightarrow>
        snd (POST env request w) = w
      \<and> (currentUser request \<noteq> None \<and> rl_success (uploadRateLimit request) \<longrightarrow>
           fst (POST env request w) = Json 400 (Failure (error (validateImageFile (penv env) ufile)))
         \<and> error (validateImageFile (penv env) ufile) \<noteq> None))"
proof (intro conjI impI)
  show "valid (validateImageFile (penv env) ufile)
      \<longleftrightarrow> ftype ufile \<in> {''image/jpeg'', ''image/png'', ''image/webp'', ''image/gif'',
                           ''image/heic'', ''image/heif''}
          \<and> \<not> js_gt (size_of ufile) (MAX_FILE_SIZE (penv env))"
    by (simp add: validateImageFile_valid ALLOWED_MIME_TYPES_def)
next
  assume "penv env ''MAX_FILE_SIZE_MB'' = None"
  then show "MAX_FILE_SIZE (penv env) = Num (10 * 1024 * 1024)"
    by (simp add: MAX_FILE_SIZE_def env_or_def default_max_file_size)
next
  assume "MAX_FILE_SIZE (penv env) = Num (of_nat m) \<and> ftype ufile \<in> set ALLOWED_MIME_TYPES"
    and "length (content ufile) = m"
  then show "valid (validateImageFile (penv env) ufile)"
    by (simp add: validateImageFile_valid size_of_def)
next
  assume "MAX_FILE_SIZE (penv env) = Num (of_nat m) \<and> ftype ufile \<in> set ALLOWED_MIME_TYPES"
    and "length (content ufile) = m + 1"
  then show "\<not> valid (validateImageFile (penv env) ufile)"
    by (simp add: validateImageFile_valid size_of_def)
next
  assume "formData_file request = Inr (Some ufile) \<and> \<not> valid (validateImageFile (penv env) ufile)"
  then show "snd (POST env request w) = w"
    using POST_invalid_file(1) by blast
next
  assume "formData_file request = Inr (Some ufile) \<and> \<not> valid (validateImageFile (penv env) ufile)"
    and "currentUser request \<noteq> None \<and> rl_success (uploadRateLimit request)"
  then show "fst (POST env request w) = Json 400 (Failure (error (validateImageFile (penv env) ufile)))"
    using POST_invalid_file(3) by blast
next
  assume "formData_file request = Inr (Some ufile) \<and> \<not> valid (validateImageFile (penv env) ufile)"
  then show "error (validateImageFile (penv env) ufile) \<noteq> None"
    using validateImageFile_error by blast
qed

theorem POST_validation_first_witness:
  "penv example_env ''MAX_FILE_SIZE_MB'' = None
   \<and> MAX_FILE_SIZE (penv example_env) = Num (of_nat 10485760)
   \<and> valid (validateImageFile (penv example_env) limit_file)
   \<and> \<not> valid (validateImageFile (penv example_env) oversize_file)
   \<and> POST example_env (example_request\<lparr>formData_file := Inr (Some oversize_file)\<rparr>) empty_world
       = (Json 400 (Failure (Some (FileSizeExceeds (Num 10)))), empty_world)
   \<and> POST example_env (example_request\<lparr>formData_file := Inr (Some pdf_file)\<rparr>) empty_world
       = (Json 400 (Failure (Some InvalidFileType)), empty_world)"
proof -
  have p: "penv example_env = example_penv" by (simp add: example_env_def)
  have n: "penv example_env ''MAX_FILE_SIZE_MB'' = None"
    by (simp add: example_env_def example_penv_def)
  have t: "ftype limit_file \<in> set ALLOWED_MIME_TYPES" "ftype oversize_file \<in> set ALLOWED_MIME_TYPES"
    "ftype pdf_file \<notin> set ALLOWED_MIME_TYPES"
    by (simp_all add: limit_file_def oversize_file_def pdf_file_def ALLOWED_MIME_TYPES_def)
  have l: "length (content limit_file) = 10485760" "length (content oversize_file) = 10485760 + 1"
    by (simp_all add: limit_file_def oversize_file_def)
  have d: "js_div (Num 10485760) (js_mul (Num 1024) (Num 1024)) = Num 10" by code_simp
  let ?big = "example_request\<lparr>formData_file := Inr (Some oversize_file)\<rparr>"
  let ?pdf = "example_request\<lparr>formData_file := Inr (Some pdf_file)\<rparr>"
  have r: "formData_file ?big = Inr (Some oversize_file)" "formData_file ?pdf = Inr (Some pdf_file)"
    "currentUser ?big \<noteq> None" "rl_success (uploadRateLimit ?big)"
    "currentUser ?pdf \<noteq> None" "rl_success (uploadRateLimit ?pdf)"
    by (simp_all add: example_request_def)
  have m: "MAX_FILE_SIZE (penv example_env) = Num (of_nat 10485760)"
    using POST_validation_first [of example_env limit_file 10485760 ?big empty_world] n by simp
  have e1: "error (validateImageFile (penv example_env) oversize_file) = Some (FileSizeExceeds (Num 10))"
    using t l by (simp add: validateImageFile_def p example_config size_of_def del: js_div.simps js_mul.simps)
      (simp only: d)
  have e2: "error (validateImageFile (penv example_env) pdf_file) = Some InvalidFileType"
    using t by (simp add: validateImageFile_def)
  from POST_validation_first [of example_env limit_file 10485760 ?big empty_world]
    POST_validation_first [of example_env oversize_file 10485760 ?big empty_world]
    POST_validation_first [of example_env pdf_file 10485760 ?pdf empty_world]
    n m t l r e1 e2
  show ?thesis
    by (simp add: validateImageFile_valid prod_eq_iff del: of_nat_numeral)
qed

section \<open>Missing dimensions\<close>




section \<open>Deleting an image\<close>

text \<open>
  C10. \<open>deleteImage\<close> returns storage paths only for a row with the given id that
  belongs to the given user; the paths are that row's, the rows with that id and owner
  are removed and nothing else changes. When no row has that id and owner (the id is
  unknown, or the row belongs to someone else), it returns no paths, \<open>null\<close> whenever the
  admin client can be built, and the table is unchanged. When exactly one such row exists
  and the database reports no error, the paths are returned and the row is removed.
\<close>

theorem deleteImage_owner_scoped:
  "(deleteImage env imageId uid w = (Inr (Some paths), w') \<longrightarrow>
      (\<exists>row \<in> set (images w). image_id row = imageId \<and> user_id row = uid
          \<and> paths = \<lparr>previewPath = preview_path row, fullPath = full_path row\<rparr>)
      \<and> images w' = filter (\<lambda>row. \<not> (image_id row = imageId \<and> user_id row = uid)) (images w)
      \<and> objects w' = objects w)
   \<and> ((\<forall>row \<in> set (images w). \<not> (image_id row = imageId \<and> user_id row = uid))
        \<and> deleteImage env imageId uid w = (r, w') \<longrightarrow>
        images w' = images w \<and> objects w' = objects w
        \<and> (\<forall>p. r \<noteq> Inr (Some p)) \<and> (key_ok env \<longrightarrow> r = Inr None))
   \<and> (key_ok env \<and> select_error env = None \<and> delete_error env = None
        \<and> filter (\<lambda>row. image_id row = imageId \<and> user_id row = uid) (images w) = [owned] \<longrightarrow>
        fst (deleteImage env imageId uid w)
          = Inr (Some \<lparr>previewPath = preview_path owned, fullPath = full_path owned\<rparr>)
        \<and> images (snd (deleteImage env imageId uid w))
          = filter (\<lambda>row. \<not> (image_id row = imageId \<and> user_id row = uid)) (images w))"
proof (intro conjI impI)
  let ?m = "\<lambda>row. image_id row = imageId \<and> user_id row = uid"
  {
    assume a: "deleteImage env imageId uid w = (Inr (Some paths), w')"
    then obtain row where f: "filter ?m (images w) = [row]"
      by (auto simp: deleteImage_cases split: if_splits)
    then have "row \<in> set (filter ?m (images w))" by simp
    then have "row \<in> set (images w)" "image_id row = imageId" "user_id row = uid" by simp_all
    moreover have "paths = \<lparr>previewPath = preview_path row, fullPath = full_path row\<rparr>"
      using a f by (auto simp: deleteImage_cases split: if_splits)
    ultimately show "\<exists>row \<in> set (images w). image_id row = imageId \<and> user_id row = uid
          \<and> paths = \<lparr>previewPath = preview_path row, fullPath = full_path row\<rparr>"
      by blast
    show "images w' = filter (\<lambda>row. \<not> (image_id row = imageId \<and> user_id row = uid)) (images w)"
      using a by (auto simp: deleteImage_cases split: if_splits)
    show "objects w' = objects w"
      using a by (auto simp: deleteImage_cases split: if_splits)
  }
  {
    assume b: "(\<forall>row \<in> set (images w). \<not> (image_id row = imageId \<and> user_id row = uid))
        \<and> deleteImage env imageId uid w = (r, w')"
    then have e: "filter ?m (images w) = []" by (simp add: filter_empty_conv)
    have d: "deleteImage env imageId uid w = (r, w')" using b by simp
    show "images w' = images w" using d e by (auto simp: deleteImage_cases split: if_splits)
    show "objects w' = objects w" using d e by (auto simp: deleteImage_cases split: if_splits)
    show "\<forall>p. r \<noteq> Inr (Some p)" using d e by (auto simp: deleteImage_cases split: if_splits)
    {
      assume "key_ok env"
      then show "r = Inr None" using d e by (auto simp: deleteImage_cases split: if_splits)
    }
  }
  {
    assume c: "key_ok env \<and> select_error env = None \<and> delete_error env = None
        \<and> filter (\<lambda>row. image_id row = imageId \<and> user_id row = uid) (images w) = [owned]"
    then show "fst (deleteImage env imageId uid w)
          = Inr (Some \<lparr>previewPath = preview_path owned, fullPath = full_path owned\<rparr>)"
      by (simp add: deleteImage_cases)
    from c show "images (snd (deleteImage env imageId uid w))
          = filter (\<lambda>row. \<not> (image_id row = imageId \<and> user_id row = uid)) (images w)"
      by (simp add: deleteImage_cases)
  }
qed

theorem deleteImage_owner_scoped_witness:
  "fst (deleteImage example_env ''a'' ''user-1'' two_images_world)
     = Inr (Some \<lparr>previewPath = ''user-1/previews/a.webp'', fullPath = ''user-1/full/a.webp''\<rparr>)
   \<and> images (snd (deleteImage example_env ''a'' ''user-1'' two_images_world))
     = [example_row ''b'' ''user-2'']
   \<and> fst (deleteImage example_env ''b'' ''user-1'' two_images_world) = Inr None
   \<and> images (snd (deleteImage example_env ''b'' ''user-1'' two_images_world))
     = images two_images_world
   \<and> fst (deleteImage example_env ''c'' ''user-1'' two_images_world) = Inr None
   \<and> images (snd (deleteImage example_env ''c'' ''user-1'' two_images_world))
     = images two_images_world"
proof -
  have k: "key_ok example_env" by (rule example_key_ok) (simp add: example_env_def)
  have s: "select_error example_env = None" "delete_error example_env = None"
    by (simp_all add: example_env_def)
  have f: "filter (\<lambda>row. image_id row = ''a'' \<and> user_id row = ''user-1'') (images two_images_world)
             = [example_row ''a'' ''user-1'']"
    by (simp add: two_images_world_def example_row_def)
  have n: "\<forall>row \<in> set (images two_images_world). \<not> (image_id row = ''b'' \<and> user_id row = ''user-1'')"
    "\<forall>row \<in> set (images two_images_world). \<not> (image_id row = ''c'' \<and> user_id row = ''user-1'')"
    by (simp_all add: two_images_world_def example_row_def)
  let ?b = "deleteImage example_env ''b'' ''user-1'' two_images_world"
  let ?c = "deleteImage example_env ''c'' ''user-1'' two_images_world"
  have pb: "?b = (fst ?b, snd ?b)" and pc: "?c = (fst ?c, snd ?c)" by simp_all
  from deleteImage_owner_scoped
         [of example_env "''a''" "''user-1''" two_images_world _ _ _ "example_row ''a'' ''user-1''"]
       deleteImage_owner_scoped
         [of example_env "''b''" "''user-1''" two_images_world _ "snd ?b" "fst ?b"]
       deleteImage_owner_scoped
         [of example_env "''c''" "''user-1''" two_images_world _ "snd ?c" "fst ?c"]
       k s f n pb pc
  show ?thesis
    by (simp add: two_images_world_def example_row_def)
qed

end
